theory Spec2Isabelle
  imports Main "HOL-Library.Sublist"
begin

section \<open>Strings\<close>

text \<open>
  Python strings are modelled as \<open>string\<close> (lists of characters).  The functions below are
  the string methods that \<open>app.py\<close> calls: \<open>str.endswith\<close>, \<open>str.startswith\<close>,
  \<open>str.replace\<close>, \<open>str.find\<close>, the \<open>in\<close> test on strings, \<open>str.split\<close>, \<open>str.join\<close> and
  \<open>str()\<close> of an integer.
\<close>

definition endswith :: "string \<Rightarrow> string \<Rightarrow> bool" where
  "endswith s suf = (length suf \<le> length s \<and> drop (length s - length suf) s = suf)"

definition startswith :: "string \<Rightarrow> string \<Rightarrow> bool" where
  "startswith s pre = (take (length pre) s = pre)"

text \<open>
  \<open>s.replace(old, new)\<close> replaces the occurrences of \<open>old\<close> from left to right, without
  overlap; an empty \<open>old\<close> matches before every character and at the end.
\<close>

fun py_replace :: "string \<Rightarrow> string \<Rightarrow> string \<Rightarrow> string" where
  "py_replace old new [] = (if old = [] then new else [])"
| "py_replace old new (c # cs) =
     (if old = [] then new @ c # py_replace old new cs
      else if startswith (c # cs) old then new @ py_replace old new (drop (length old) (c # cs))
      else c # py_replace old new cs)"

text \<open>\<open>s.find(sub)\<close>: the index of the first occurrence, or \<open>-1\<close>.\<close>

fun find_str :: "string \<Rightarrow> string \<Rightarrow> int" where
  "find_str sub [] = (if sub = [] then 0 else - 1)"
| "find_str sub (c # cs) =
     (if startswith (c # cs) sub then 0
      else (let r = find_str sub cs in if r = - 1 then - 1 else r + 1))"

definition contains :: "string \<Rightarrow> string \<Rightarrow> bool" where
  "contains sub s = (find_str sub s \<noteq> - 1)"

fun split_on :: "char \<Rightarrow> string \<Rightarrow> string list" where
  "split_on c [] = [[]]"
| "split_on c (x # xs) =
     (if x = c then [] # split_on c xs
      else (case split_on c xs of [] \<Rightarrow> [[x]] | w # ws \<Rightarrow> (x # w) # ws))"

fun join_with :: "string \<Rightarrow> string list \<Rightarrow> string" where
  "join_with sep [] = []"
| "join_with sep [w] = w"
| "join_with sep (w # v # ws) = w @ sep @ join_with sep (v # ws)"

definition digit_char :: "nat \<Rightarrow> char" where
  "digit_char d = ''0123456789'' ! d"

function str_nat :: "nat \<Rightarrow> string" where
  "str_nat n = (if n < 10 then [digit_char n] else str_nat (n div 10) @ [digit_char (n mod 10)])"
  by pat_completeness auto
termination
  by (relation "measure id") auto

declare str_nat.simps [simp del]

definition str_int :: "int \<Rightarrow> string" where
  "str_int i = (if i < 0 then CHR ''-'' # str_nat (nat (- i)) else str_nat (nat i))"

section \<open>Paths\<close>

text \<open>
  \<open>os.path\<close> on a POSIX host: \<open>isabs\<close>, \<open>join\<close>, \<open>basename\<close> and \<open>normpath\<close> work on
  the path string alone and are modelled as \<open>posixpath\<close> defines them.
\<close>

definition isabs :: "string \<Rightarrow> bool" where
  "isabs s = startswith s ''/''"

definition join :: "string \<Rightarrow> string \<Rightarrow> string" where
  "join a b =
     (if startswith b ''/'' then b
      else if a = [] \<or> endswith a ''/'' then a @ b
      else a @ ''/'' @ b)"

definition basename :: "string \<Rightarrow> string" where
  "basename p = rev (takeWhile (\<lambda>c. c \<noteq> CHR ''/'') (rev p))"

definition initial_slashes :: "string \<Rightarrow> nat" where
  "initial_slashes path =
     (if startswith path ''/'' then
        (if startswith path ''//'' \<and> \<not> startswith path ''///'' then 2 else 1)
      else 0)"

definition normpath_step :: "nat \<Rightarrow> string list \<Rightarrow> string \<Rightarrow> string list" where
  "normpath_step slashes new_comps seg =
     (if seg = [] \<or> seg = ''.'' then new_comps
      else if seg \<noteq> ''..'' \<or> (slashes = 0 \<and> new_comps = [])
              \<or> (new_comps \<noteq> [] \<and> last new_comps = ''..'')
        then new_comps @ [seg]
      else if new_comps \<noteq> [] then butlast new_comps
      else new_comps)"

definition normpath :: "string \<Rightarrow> string" where
  "normpath path =
     (if path = [] then ''.''
      else
        (let slashes = initial_slashes path;
             comps = foldl (normpath_step slashes) [] (split_on CHR ''/'' path);
             p = replicate slashes CHR ''/'' @ join_with ''/'' comps
         in if p = [] then ''.'' else p))"

text \<open>
  The segments of a normalized absolute path: none is empty, \<open>.\<close> or \<open>..\<close>, and none
  holds a slash.
\<close>

definition plain_segments :: "string list \<Rightarrow> bool" where
  "plain_segments cs = (\<forall>w \<in> set cs. w \<noteq> [] \<and> w \<noteq> ''.'' \<and> w \<noteq> ''..'' \<and> CHR ''/'' \<notin> set w)"

text \<open>
  \<open>os.path.expandvars\<close>: a reference \<open>$name\<close> or \<open>${name}\<close> to a variable of the environment
  is replaced by its value; a reference to a variable that is not set stays as it is.  A name
  is a non-empty run of ASCII letters, digits and underscores, or anything up to the next
  closing brace.  \<open>var_match\<close> reads the text after a \<open>$\<close>: the text of the reference, the
  name, and what follows.
\<close>

definition is_word_char :: "char \<Rightarrow> bool" where
  "is_word_char c =
     (c \<in> set ''_abcdefghijklmnopqrstuvwxyzABCDEFGHIJKLMNOPQRSTUVWXYZ0123456789'')"

definition var_match :: "string \<Rightarrow> (string \<times> string \<times> string) option" where
  "var_match cs =
     (if takeWhile is_word_char cs \<noteq> [] then
        Some (takeWhile is_word_char cs, takeWhile is_word_char cs, dropWhile is_word_char cs)
      else
        (case cs of
           [] \<Rightarrow> None
         | c # cs' \<Rightarrow>
             if c = CHR ''{'' \<and> CHR ''}'' \<in> set cs' then
               Some (CHR ''{'' # takeWhile (\<lambda>x. x \<noteq> CHR ''}'') cs' @ ''}'',
                     takeWhile (\<lambda>x. x \<noteq> CHR ''}'') cs',
                     tl (dropWhile (\<lambda>x. x \<noteq> CHR ''}'') cs'))
             else None))"

lemma var_match_shorter:
  assumes "var_match cs = Some (raw, nm, rest)"
  shows "length rest \<le> length cs"
proof (cases "takeWhile is_word_char cs \<noteq> []")
  case True
  with assms have "rest = dropWhile is_word_char cs" by (simp add: var_match_def)
  then show ?thesis by (simp add: length_dropWhile_le)
next
  case False
  with assms obtain c cs' where cs: "cs = c # cs'"
    and rest: "rest = tl (dropWhile (\<lambda>x. x \<noteq> CHR ''}'') cs')"
    by (auto simp: var_match_def split: list.splits if_splits)
  have "length (dropWhile (\<lambda>x. x \<noteq> CHR ''}'') cs') \<le> length cs'"
    by (rule length_dropWhile_le)
  then show ?thesis using cs rest by simp
qed

function expandvars :: "(string \<Rightarrow> string option) \<Rightarrow> string \<Rightarrow> string" where
  "expandvars env [] = []"
| "expandvars env (c # cs) =
     (if c = CHR ''$'' then
        (case var_match cs of
           None \<Rightarrow> c # expandvars env cs
         | Some (raw, nm, rest) \<Rightarrow>
             (case env nm of
                Some v \<Rightarrow> v @ expandvars env rest
              | None \<Rightarrow> c # raw @ expandvars env rest))
      else c # expandvars env cs)"
  by pat_completeness auto
termination
  by (relation "measure (\<lambda>(env, s). length s)") (auto dest: var_match_shorter)

text \<open>
  \<open>pathlib.Path\<close> objects returned by \<open>to_absolute_path\<close> are absolute: an anchor (the
  root) followed by the path segments.  \<open>parts\<close> is the tuple \<open>Path.parts\<close>, \<open>parents\<close>
  the sequence \<open>Path.parents\<close> (nearest ancestor first); two paths are equal when their parts
  are.
\<close>

datatype abs_path = AbsPath (anchor: string) (segments: "string list")

definition parts :: "abs_path \<Rightarrow> string list" where
  "parts p = anchor p # segments p"

definition parents :: "abs_path \<Rightarrow> abs_path list" where
  "parents p = map (AbsPath (anchor p)) (rev (butlast (prefixes (segments p))))"

text \<open>
  A symlink-free instance of \<open>to_absolute_path\<close> for a given working directory, used to
  evaluate the model on concrete inputs: a relative path is resolved against the working
  directory, empty and \<open>.\<close> segments are dropped and \<open>..\<close> removes the segment before it.
\<close>

definition posix_resolve :: "string list \<Rightarrow> string \<Rightarrow> abs_path" where
  "posix_resolve cwd s =
     AbsPath ''/''
       (foldl (\<lambda>acc c. if c = ''..'' then butlast acc else acc @ [c])
          (if startswith s ''/'' then [] else cwd)
          (filter (\<lambda>c. c \<noteq> [] \<and> c \<noteq> ''.'') (split_on CHR ''/'' s)))"

section \<open>The App entity\<close>

datatype BuildOrNot = YES | NO | UNKNOWN

text \<open>
  An argument of type \<open>Union[List[str], str, None]\<close> is an optional \<open>str_or_list\<close>.
\<close>

datatype str_or_list = Str string | Lst "string list"

text \<open>
  Modelled from the spec: \<open>utils.to_list\<close> is not among the sources.  The signatures of
  \<open>build\<close> and \<open>check_should_build\<close> (a list, a single string or nothing) fix what it does:
  nothing stays nothing, a list is returned as it is, a single string becomes a one-element
  list.
\<close>

fun to_list :: "str_or_list option \<Rightarrow> string list option" where
  "to_list None = None"
| "to_list (Some (Lst xs)) = Some xs"
| "to_list (Some (Str s)) = Some [s]"

text \<open>
  Python's truth value of such an argument (\<open>if modified_files:\<close>) and the items a
  \<open>for\<close> loop over it visits: the elements of a list, the characters of a string.
\<close>

fun truthy :: "str_or_list option \<Rightarrow> bool" where
  "truthy None = False"
| "truthy (Some (Lst xs)) = (xs \<noteq> [])"
| "truthy (Some (Str s)) = (s \<noteq> [])"

fun iter_items :: "str_or_list option \<Rightarrow> string list" where
  "iter_items None = []"
| "iter_items (Some (Lst xs)) = xs"
| "iter_items (Some (Str s)) = map (\<lambda>c. [c]) s"

text \<open>
  What the model takes from outside \<open>app.py\<close>: the manifest collaborator as far as the
  build decision consults it, the helpers of \<open>utils\<close> that touch the file system, the
  process environment (\<open>os.environ\<close>), \<open>os.path.realpath\<close> (which resolves symbolic links
  and the working directory, so it is a function of the file system), the version numbers of
  \<open>constants\<close>, the matches of a \<open>pathlib\<close> glob pattern that has wildcard characters, and
  \<open>path_entry\<close>, the directory entry that the operating system reaches when it opens or
  stats a path: nothing when the path is empty or runs through a directory that does not
  exist (also when a \<open>..\<close> after it would lead back), and the same entry for two paths that
  name one file.
\<close>

record Manifest =
  manifest_depends_components :: "string \<Rightarrow> string list"
  manifest_depends_filepatterns :: "string \<Rightarrow> string list"

record Externals =
  MANIFEST :: "Manifest option"
  to_absolute_path :: "string \<Rightarrow> abs_path"
  files_matches_patterns :: "string list \<Rightarrow> string list \<Rightarrow> string option \<Rightarrow> bool"
  environ :: "string \<Rightarrow> string option"
  realpath :: "string \<Rightarrow> string"
  IDF_VERSION_MAJOR :: int
  IDF_VERSION_MINOR :: int
  IDF_VERSION_PATCH :: int
  wildcard_glob :: "(string \<Rightarrow> string option) \<Rightarrow> string \<Rightarrow> string \<Rightarrow> string list"
  path_entry :: "string \<Rightarrow> string option"

text \<open>
  The two concrete classes, \<open>MakeApp\<close> and \<open>CMakeApp\<close>, share the fields of \<open>App\<close>;
  \<open>cmake_vars\<close> is the dictionary of \<open>CMakeApp\<close>.  The fields \<open>raw_work_dir\<close>,
  \<open>raw_build_dir\<close>, \<open>raw_build_log_path\<close> and \<open>raw_size_json_path\<close> are the private
  attributes \<open>_work_dir\<close>, \<open>_build_dir\<close>, \<open>_build_log_path\<close> and \<open>_size_json_path\<close>, which
  hold the paths with their placeholders; \<open>sdkconfig_files\<close> and
  \<open>sdkconfig_files_defined_target\<close> are \<open>_sdkconfig_files\<close> and
  \<open>_sdkconfig_files_defined_target\<close>.
\<close>

datatype app_class = MakeApp | CMakeApp

record App =
  app_class :: app_class
  app_dir :: string
  target :: string
  sdkconfig_path :: "string option"
  config_name :: "string option"
  should_build :: BuildOrNot
  raw_work_dir :: string
  raw_build_dir :: string
  raw_build_log_path :: "string option"
  raw_size_json_path :: "string option"
  dry_run :: bool
  index :: "int option"
  verbose :: bool
  check_warnings :: bool
  preserve :: bool
  parallel_index :: int
  parallel_count :: int
  checked_should_build :: bool
  sdkconfig_defaults :: "string list"
  sdkconfig_files :: "string list"
  sdkconfig_files_defined_target :: "string option"
  cmake_vars :: "string \<Rightarrow> string option"

definition depends_components :: "Externals \<Rightarrow> App \<Rightarrow> string list" where
  "depends_components X self =
     (case MANIFEST X of
        Some m \<Rightarrow> manifest_depends_components m (app_dir self)
      | None \<Rightarrow> [])"

definition depends_filepatterns :: "Externals \<Rightarrow> App \<Rightarrow> string list" where
  "depends_filepatterns X self =
     (case MANIFEST X of
        Some m \<Rightarrow> manifest_depends_filepatterns m (app_dir self)
      | None \<Rightarrow> [])"

section \<open>Path expansion\<close>

abbreviation (input) TARGET_PLACEHOLDER :: string where "TARGET_PLACEHOLDER \<equiv> ''@t''"
abbreviation (input) WILDCARD_PLACEHOLDER :: string where "WILDCARD_PLACEHOLDER \<equiv> ''@w''"
abbreviation (input) NAME_PLACEHOLDER :: string where "NAME_PLACEHOLDER \<equiv> ''@n''"
abbreviation (input) FULL_NAME_PLACEHOLDER :: string where "FULL_NAME_PLACEHOLDER \<equiv> ''@f''"
abbreviation (input) INDEX_PLACEHOLDER :: string where "INDEX_PLACEHOLDER \<equiv> ''@i''"
abbreviation (input) PARALLEL_INDEX_PLACEHOLDER :: string where
  "PARALLEL_INDEX_PLACEHOLDER \<equiv> ''@p''"
abbreviation (input) IDF_VERSION_PLACEHOLDER :: string where "IDF_VERSION_PLACEHOLDER \<equiv> ''@v''"

text \<open>The property \<open>name\<close>: the last component of the resolved app directory.\<close>

definition name :: "Externals \<Rightarrow> App \<Rightarrow> string" where
  "name X self = basename (realpath X (app_dir self))"

text \<open>
  \<open>_expand\<close>, step by step.  \<open>expand_head\<close> is the chain of replacements of the index,
  parallel index, version and target placeholders; \<open>expand_tokens\<close> continues with the name
  placeholder and then the full name placeholder, in the order of the source;
  \<open>expand_wildcard\<close> is the treatment of the wildcard placeholder; \<open>expand\<close> is the whole
  method, which returns an empty path as it is and ends with \<open>os.path.expandvars\<close>.
\<close>

definition expand_head :: "Externals \<Rightarrow> App \<Rightarrow> string \<Rightarrow> string" where
  "expand_head X self path0 =
     (let path1 = (case index self of
                     Some i \<Rightarrow> py_replace INDEX_PLACEHOLDER (str_int i) path0
                   | None \<Rightarrow> path0);
          path2 = py_replace PARALLEL_INDEX_PLACEHOLDER (str_int (parallel_index self)) path1;
          path3 = py_replace IDF_VERSION_PLACEHOLDER
                    (str_int (IDF_VERSION_MAJOR X) @ ''_'' @ str_int (IDF_VERSION_MINOR X)
                       @ ''_'' @ str_int (IDF_VERSION_PATCH X)) path2
      in py_replace TARGET_PLACEHOLDER (target self) path3)"

definition expand_tokens :: "Externals \<Rightarrow> App \<Rightarrow> string \<Rightarrow> string" where
  "expand_tokens X self path0 =
     (let path4 = expand_head X self path0;
          path5 = py_replace NAME_PLACEHOLDER (name X self) path4
      in if contains FULL_NAME_PLACEHOLDER path5
         then py_replace FULL_NAME_PLACEHOLDER (py_replace ''/'' ''_'' (app_dir self)) path5
         else path5)"

definition expand_wildcard :: "App \<Rightarrow> string \<Rightarrow> string" where
  "expand_wildcard self path =
     (let wildcard_pos = find_str WILDCARD_PLACEHOLDER path in
      if wildcard_pos \<noteq> - 1 then
        (case config_name self of
           Some (c # cs) \<Rightarrow> py_replace WILDCARD_PLACEHOLDER (c # cs) path
         | _ \<Rightarrow>
             (let left_of_wildcard = max 0 (wildcard_pos - 1);
                  right_of_wildcard = wildcard_pos + int (length WILDCARD_PLACEHOLDER)
              in take (nat left_of_wildcard) path @ drop (nat right_of_wildcard) path))
      else path)"

definition expand :: "Externals \<Rightarrow> App \<Rightarrow> string \<Rightarrow> string" where
  "expand X self path =
     (if path = [] then path
      else expandvars (environ X) (expand_wildcard self (expand_tokens X self path)))"

text \<open>A path that contains none of the seven placeholder tokens.\<close>

definition no_placeholder :: "string \<Rightarrow> bool" where
  "no_placeholder path =
     (\<not> contains INDEX_PLACEHOLDER path \<and> \<not> contains PARALLEL_INDEX_PLACEHOLDER path
      \<and> \<not> contains IDF_VERSION_PLACEHOLDER path \<and> \<not> contains TARGET_PLACEHOLDER path
      \<and> \<not> contains NAME_PLACEHOLDER path \<and> \<not> contains FULL_NAME_PLACEHOLDER path
      \<and> \<not> contains WILDCARD_PLACEHOLDER path)"

text \<open>
  The order of the two name substitutions as the specification words it, for comparison
  with the source: the full name placeholder first, the name placeholder after it.
\<close>

definition expand_tokens_full_name_first :: "Externals \<Rightarrow> App \<Rightarrow> string \<Rightarrow> string" where
  "expand_tokens_full_name_first X self path0 =
     (let path4 = expand_head X self path0;
          path5 = (if contains FULL_NAME_PLACEHOLDER path4
                   then py_replace FULL_NAME_PLACEHOLDER (py_replace ''/'' ''_'' (app_dir self)) path4
                   else path4)
      in py_replace NAME_PLACEHOLDER (name X self) path5)"

definition expand_full_name_first :: "Externals \<Rightarrow> App \<Rightarrow> string \<Rightarrow> string" where
  "expand_full_name_first X self path =
     (if path = [] then path
      else expandvars (environ X)
             (expand_wildcard self (expand_tokens_full_name_first X self path)))"

definition work_dir :: "Externals \<Rightarrow> App \<Rightarrow> string" where
  "work_dir X self = expand X self (raw_work_dir self)"

definition build_dir :: "Externals \<Rightarrow> App \<Rightarrow> string" where
  "build_dir X self = expand X self (raw_build_dir self)"

definition build_path :: "Externals \<Rightarrow> App \<Rightarrow> string" where
  "build_path X self =
     (if isabs (build_dir X self) then build_dir X self
      else realpath X (join (work_dir X self) (build_dir X self)))"

definition build_log_path :: "Externals \<Rightarrow> App \<Rightarrow> string option" where
  "build_log_path X self =
     (case raw_build_log_path self of
        Some (c # cs) \<Rightarrow> Some (join (build_path X self) (expand X self (c # cs)))
      | _ \<Rightarrow> None)"

definition size_json_path :: "Externals \<Rightarrow> App \<Rightarrow> string option" where
  "size_json_path X self =
     (case raw_size_json_path self of
        Some (c # cs) \<Rightarrow> Some (join (build_path X self) (expand X self (c # cs)))
      | _ \<Rightarrow> None)"

section \<open>The sdkconfig pipeline\<close>

text \<open>
  The regular expression \<open>SDKCONFIG_LINE_REGEX\<close>, \<open>^([^=]+)="?([^"\n]*)"?\n*$\<close>, matched at
  the start of a line: the key is the non-empty text before the first \<open>=\<close>; after an optional
  quote the value runs up to the next quote or newline; after an optional quote only newlines
  may follow.  The result is the pair of the two groups.
\<close>

definition sdkconfig_line_match :: "string \<Rightarrow> (string \<times> string) option" where
  "sdkconfig_line_match line =
     (let key = takeWhile (\<lambda>c. c \<noteq> CHR ''='') line;
          rest = dropWhile (\<lambda>c. c \<noteq> CHR ''='') line
      in if key = [] \<or> rest = [] then None
         else
           (let r1 = tl rest;
                r2 = (if startswith r1 [CHR 0x22] then tl r1 else r1);
                v = takeWhile (\<lambda>c. c \<noteq> CHR 0x22 \<and> c \<noteq> CHR 0x0A) r2;
                r3 = dropWhile (\<lambda>c. c \<noteq> CHR 0x22 \<and> c \<noteq> CHR 0x0A) r2;
                r4 = (if startswith r3 [CHR 0x22] then tl r3 else r3)
            in if list_all (\<lambda>c. c = CHR 0x0A) r4 then Some (key, v) else None))"

definition SDKCONFIG_TEST_OPTS :: "string list" where
  "SDKCONFIG_TEST_OPTS = [''EXCLUDE_COMPONENTS'', ''TEST_EXCLUDE_COMPONENTS'', ''TEST_COMPONENTS'']"

definition SDKCONFIG_IGNORE_OPTS :: "string list" where
  "SDKCONFIG_IGNORE_OPTS = [''TEST_GROUPS'']"

text \<open>
  The body of the loop over the lines of one sdkconfig file.  The state is the App (the loop
  assigns \<open>_sdkconfig_files_defined_target\<close> and \<open>cmake_vars\<close>) and the text written to the
  scratch copy so far.
\<close>

definition process_line :: "Externals \<Rightarrow> string \<Rightarrow> App \<times> string \<Rightarrow> App \<times> string" where
  "process_line X raw_line st =
     (let self = fst st; out = snd st;
          line = expandvars (environ X) raw_line
      in case sdkconfig_line_match line of
           None \<Rightarrow> (self, out @ line)
         | Some (key, val) \<Rightarrow>
             (let self1 = (if key = ''CONFIG_IDF_TARGET''
                           then self\<lparr>sdkconfig_files_defined_target := Some val\<rparr> else self)
              in if app_class self1 = CMakeApp then
                   (if key \<in> set SDKCONFIG_TEST_OPTS
                      then (self1\<lparr>cmake_vars := (cmake_vars self1)(key \<mapsto> val)\<rparr>, out)
                    else if key \<in> set SDKCONFIG_IGNORE_OPTS then (self1, out)
                    else (self1, out @ line))
                 else (self1, out @ line)))"

text \<open>
  The file system as the pipeline sees it: the regular files, each with its text, under the
  directory entry that \<open>path_entry\<close> gives for a path, so that two paths of one file read and
  write the same text and a path through a missing directory names no file.  The pipeline
  creates and removes regular files only, so \<open>path_entry\<close> stays as it is once
  \<open>os.makedirs\<close> has made the scratch directory before the loop; the two \<open>os.rmdir\<close> calls
  after the loop remove directories that are empty.  \<open>read_file\<close> is the text of a file that
  exists; the pipeline reads the candidate after \<open>os.path.isfile\<close> and the scratch copy after
  writing it.
\<close>

type_synonym files = "string \<Rightarrow> string option"

definition isfile :: "Externals \<Rightarrow> files \<Rightarrow> string \<Rightarrow> bool" where
  "isfile X fs p = (case path_entry X p of None \<Rightarrow> False | Some e \<Rightarrow> fs e \<noteq> None)"

definition read_file :: "Externals \<Rightarrow> files \<Rightarrow> string \<Rightarrow> string" where
  "read_file X fs p =
     (case path_entry X p of
        None \<Rightarrow> []
      | Some e \<Rightarrow> (case fs e of Some t \<Rightarrow> t | None \<Rightarrow> []))"

text \<open>
  \<open>open(p, 'w')\<close> followed by the writes and the close: the file at \<open>p\<close> holds the text
  written; the call raises when the directory of \<open>p\<close> does not exist.  \<open>os.unlink\<close> is called
  in a \<open>try\<close> block that logs a failure and goes on.
\<close>

datatype error = FileNotFoundError string | SameFileError string

definition write_file :: "Externals \<Rightarrow> files \<Rightarrow> string \<Rightarrow> string \<Rightarrow> error + files" where
  "write_file X fs p t =
     (case path_entry X p of
        None \<Rightarrow> Inl (FileNotFoundError p)
      | Some e \<Rightarrow> Inr (fs(e \<mapsto> t)))"

definition unlink :: "Externals \<Rightarrow> files \<Rightarrow> string \<Rightarrow> files" where
  "unlink X fs p = (case path_entry X p of None \<Rightarrow> fs | Some e \<Rightarrow> fs(e := None))"

text \<open>The lines of a text as iterating over the open file gives them, each with its newline.\<close>

fun file_lines :: "string \<Rightarrow> string list" where
  "file_lines [] = []"
| "file_lines (c # cs) =
     (if c = CHR 0x0A then [c] # file_lines cs
      else (case file_lines cs of [] \<Rightarrow> [[c]] | l # ls \<Rightarrow> (c # l) # ls))"

text \<open>
  \<open>shutil.copy(src, directory)\<close> writes the text of \<open>src\<close> to the file of the same base name
  in the directory; it raises when \<open>src\<close> does not exist and when source and destination are
  the same file.
\<close>

definition copy_to_dir :: "Externals \<Rightarrow> string \<Rightarrow> string \<Rightarrow> files \<Rightarrow> error + files" where
  "copy_to_dir X dir src fs =
     (let dst = join dir (basename src) in
      if \<not> isfile X fs src then Inl (FileNotFoundError src)
      else if path_entry X src = path_entry X dst then Inl (SameFileError src)
      else write_file X fs dst (read_file X fs src))"

fun copy_all :: "Externals \<Rightarrow> string \<Rightarrow> string list \<Rightarrow> files \<Rightarrow> error + files" where
  "copy_all X dir [] fs = Inr fs"
| "copy_all X dir (src # srcs) fs =
     (case copy_to_dir X dir src fs of
        Inl e \<Rightarrow> Inl e
      | Inr fs' \<Rightarrow> copy_all X dir srcs fs')"

text \<open>
  \<open>pathlib\<close>: a path string is read as a root and the list of its segments (empty and \<open>.\<close>
  segments are dropped); \<open>pathlib_str\<close> is the string of such a path.
\<close>

definition pathlib_root :: "string \<Rightarrow> string" where
  "pathlib_root p = replicate (initial_slashes p) CHR ''/''"

definition pathlib_segments :: "string \<Rightarrow> string list" where
  "pathlib_segments p = filter (\<lambda>c. c \<noteq> [] \<and> c \<noteq> ''.'') (split_on CHR ''/'' p)"

definition pathlib_str :: "string \<Rightarrow> string list \<Rightarrow> string" where
  "pathlib_str root segs = (if root = [] \<and> segs = [] then ''.'' else root @ join_with ''/'' segs)"

text \<open>
  \<open>Path(f).parent.glob(pattern)\<close> for the pattern \<open>basename(f).target\<close>.  A pattern without
  wildcard characters matches the entry of that name beside \<open>f\<close> if it exists; the matches of
  a pattern with wildcard characters are a parameter.
\<close>

definition has_magic :: "string \<Rightarrow> bool" where
  "has_magic pat = list_ex (\<lambda>c. c \<in> set ''*?['') pat"

definition target_specific_path :: "string \<Rightarrow> string \<Rightarrow> string" where
  "target_specific_path f tgt =
     pathlib_str (pathlib_root f)
       (butlast (pathlib_segments f) @ pathlib_segments (basename f @ ''.'' @ tgt))"

definition target_specific_files :: "Externals \<Rightarrow> files \<Rightarrow> string \<Rightarrow> string \<Rightarrow> string list" where
  "target_specific_files X fs f tgt =
     (if has_magic (basename f @ ''.'' @ tgt) then
        wildcard_glob X fs (pathlib_str (pathlib_root f) (butlast (pathlib_segments f)))
          (basename f @ ''.'' @ tgt)
      else if isfile X fs (target_specific_path f tgt) then [target_specific_path f tgt]
      else [])"

text \<open>
  One round of the loop over the candidate files.  The state is the App, the files and the
  list \<open>res\<close>.  The candidate is opened for reading and then the scratch copy for writing,
  which empties it, before the first line of the candidate is read; the scratch copy holds
  the lines written when both files are opened again for the comparison.
\<close>

definition process_file ::
  "Externals \<Rightarrow> string \<Rightarrow> string \<Rightarrow> App \<times> files \<times> string list
     \<Rightarrow> error + App \<times> files \<times> string list" where
  "process_file X expanded_dir f0 st =
     (let self = fst st; fs = fst (snd st); res = snd (snd st);
          f = (if isabs f0 then f0 else join (work_dir X self) f0)
      in if \<not> isfile X fs f then Inr (self, fs, res)
         else
           (let expanded_fp = join expanded_dir (basename f) in
            case write_file X fs expanded_fp [] of
              Inl e \<Rightarrow> Inl e
            | Inr fs1 \<Rightarrow>
                (let r = fold (process_line X) (file_lines (read_file X fs1 f)) (self, []) in
                 case write_file X fs1 expanded_fp (snd r) of
                   Inl e \<Rightarrow> Inl e
                 | Inr fs2 \<Rightarrow>
                     if read_file X fs2 f = read_file X fs2 expanded_fp
                     then Inr (fst r, unlink X fs2 expanded_fp, res @ [f])
                     else
                       (case copy_all X expanded_dir
                               (target_specific_files X fs2 f (target (fst r))) fs2 of
                          Inl e \<Rightarrow> Inl e
                        | Inr fs3 \<Rightarrow> Inr (fst r, fs3, res @ [expanded_fp])))))"

fun process_files ::
  "Externals \<Rightarrow> string \<Rightarrow> string list \<Rightarrow> App \<times> files \<times> string list
     \<Rightarrow> error + App \<times> files \<times> string list" where
  "process_files X expanded_dir [] st = Inr st"
| "process_files X expanded_dir (f0 # rest) st =
     (case process_file X expanded_dir f0 st of
        Inl e \<Rightarrow> Inl e
      | Inr st' \<Rightarrow> process_files X expanded_dir rest st')"

definition sdkconfig_candidates :: "App \<Rightarrow> string list" where
  "sdkconfig_candidates self =
     sdkconfig_defaults self @ (case sdkconfig_path self of Some (c # cs) \<Rightarrow> [c # cs] | _ \<Rightarrow> [])"

definition expanded_dir :: "Externals \<Rightarrow> App \<Rightarrow> string" where
  "expanded_dir X self =
     join (join (work_dir X self) ''expanded_sdkconfig_files'') (basename (build_dir X self))"

definition process_sdkconfig_files :: "Externals \<Rightarrow> App \<Rightarrow> files \<Rightarrow> error + App \<times> files" where
  "process_sdkconfig_files X self fs =
     (case process_files X (expanded_dir X self) (sdkconfig_candidates self) (self, fs, []) of
        Inl e \<Rightarrow> Inl e
      | Inr st \<Rightarrow> Inr ((fst st)\<lparr>sdkconfig_files := snd (snd st)\<rparr>, fst (snd st)))"


definition same_identity :: "App \<Rightarrow> App \<Rightarrow> bool" where
  "same_identity a b =
     (app_dir a = app_dir b \<and> target a = target b \<and> index a = index b
      \<and> parallel_index a = parallel_index b \<and> config_name a = config_name b
      \<and> raw_work_dir a = raw_work_dir b \<and> raw_build_dir a = raw_build_dir b
      \<and> app_class a = app_class b)"

definition candidate_path :: "Externals \<Rightarrow> App \<Rightarrow> string \<Rightarrow> string" where
  "candidate_path X self f0 = (if isabs f0 then f0 else join (work_dir X self) f0)"

definition expanded_fp :: "string \<Rightarrow> string \<Rightarrow> string" where
  "expanded_fp dir f = join dir (basename f)"

definition normalized_text :: "Externals \<Rightarrow> App \<Rightarrow> string \<Rightarrow> string" where
  "normalized_text X self t = snd (fold (process_line X) (file_lines t) (self, []))"

definition entry_of :: "Externals \<Rightarrow> App \<Rightarrow> string \<Rightarrow> string \<Rightarrow> string \<Rightarrow> bool" where
  "entry_of X self dir r f0 =
     (r = candidate_path X self f0 \<or> r = expanded_fp dir (candidate_path X self f0))"

section \<open>The build decision\<close>

text \<open>
  The loop of \<open>is_modified\<close>: a file whose last path part ends in \<open>.md\<close> is skipped; the
  first other file that has the app directory among its ancestors makes the result true.
\<close>

fun is_modified_loop :: "Externals \<Rightarrow> abs_path \<Rightarrow> string list \<Rightarrow> bool" where
  "is_modified_loop X app_full [] = False"
| "is_modified_loop X app_full (f # fs) =
     (let f_full = to_absolute_path X f in
      if endswith (last (parts f_full)) ''.md'' then is_modified_loop X app_full fs
      else if app_full \<in> set (parents f_full) then True
      else is_modified_loop X app_full fs)"

definition is_modified :: "Externals \<Rightarrow> App \<Rightarrow> str_or_list option \<Rightarrow> bool" where
  "is_modified X self modified_files =
     (let app_full = to_absolute_path X (app_dir self) in
      if truthy modified_files then is_modified_loop X app_full (iter_items modified_files)
      else False)"

record Call =
  manifest_rootpath :: "string option"
  check_app_dependencies :: bool
  modified_components :: "str_or_list option"
  modified_files :: "str_or_list option"

definition components_signal :: "Externals \<Rightarrow> App \<Rightarrow> Call \<Rightarrow> BuildOrNot" where
  "components_signal X self c =
     (case to_list (modified_components c) of
        Some mc \<Rightarrow>
          if check_app_dependencies c then
            (if set (depends_components X self) \<inter> set mc \<noteq> {} then YES
             else if depends_components X self \<noteq> [] then NO
             else UNKNOWN)
          else UNKNOWN
      | None \<Rightarrow> UNKNOWN)"

definition files_signal :: "Externals \<Rightarrow> App \<Rightarrow> Call \<Rightarrow> BuildOrNot" where
  "files_signal X self c =
     (case to_list (modified_files c) of
        Some mf \<Rightarrow>
          if check_app_dependencies c then
            (if files_matches_patterns X mf (depends_filepatterns X self) (manifest_rootpath c)
             then YES
             else if depends_filepatterns X self \<noteq> [] then NO
             else UNKNOWN)
          else UNKNOWN
      | None \<Rightarrow> UNKNOWN)"

definition check_should_build :: "Externals \<Rightarrow> Call \<Rightarrow> App \<Rightarrow> App" where
  "check_should_build X c self =
     (if should_build self \<noteq> UNKNOWN then self
      else if \<not> check_app_dependencies c then
        self\<lparr>should_build := YES, checked_should_build := True\<rparr>
      else if is_modified X self (modified_files c) then
        self\<lparr>should_build := YES, checked_should_build := True\<rparr>
      else
        (let mc = components_signal X self c;
             mf = files_signal X self c
         in (if mc = YES \<or> mf = YES then self\<lparr>should_build := YES\<rparr>
             else if mc = NO then self\<lparr>should_build := NO\<rparr>
             else self)\<lparr>checked_should_build := True\<rparr>))"

text \<open>
  A modified file that counts for \<open>is_modified\<close>: its last path part does not end in
  \<open>.md\<close> and the app directory is one of its ancestors, that is, both resolve under the same
  root and the segments of the app directory are a proper prefix of those of the file.
\<close>

definition inside_app :: "Externals \<Rightarrow> App \<Rightarrow> string \<Rightarrow> bool" where
  "inside_app X self f =
     (\<not> endswith (last (parts (to_absolute_path X f))) ''.md''
      \<and> anchor (to_absolute_path X (app_dir self)) = anchor (to_absolute_path X f)
      \<and> strict_prefix (segments (to_absolute_path X (app_dir self)))
           (segments (to_absolute_path X f)))"

text \<open>
  A sequence of calls on one App instance, and the values of \<open>should_build\<close> seen before
  the first call and after each one.
\<close>

fun decisions :: "Externals \<Rightarrow> Call list \<Rightarrow> App \<Rightarrow> BuildOrNot list" where
  "decisions X [] self = [should_build self]"
| "decisions X (c # cs) self = should_build self # decisions X cs (check_should_build X c self)"

fun changes :: "'a list \<Rightarrow> nat" where
  "changes (x # y # ys) = (if x = y then 0 else 1) + changes (y # ys)"
| "changes _ = 0"

section \<open>The build lifecycle\<close>

text \<open>
  \<open>build\<close> acts on the file system, runs the toolchain and writes to the logger.  The model
  returns the list of these actions in the order in which the method performs them, and the
  way the method ends.  What the method observes from outside is a parameter, the
  \<open>BuildWorld\<close>: the answers of \<open>os.path.exists\<close>, the name of the temporary file, how the
  abstract method \<open>_build\<close> ends, the lines of the log file read back after the run, the map
  file that \<open>find_first_match\<close> finds and whether the size tool fails.
\<close>

datatype log_level = DEBUG | INFO | WARNING | ERROR

datatype exn = BuildError string | OtherError string

datatype build_result = Returned bool | Raised exn

datatype action =
    Log log_level string
  | Rmtree string
  | Copytree string string
  | Makedirs string
  | Unlink string
  | OpenLogfile string
  | NamedTemporaryFile string
  | RunBuild
  | CloseLogfile string
  | RunSizeTool string string
  | Rmdir string "string list"

record BuildWorld =
  work_dir_exists :: bool
  build_path_exists :: bool
  sdkconfig_exists :: bool
  temp_name :: string
  build_outcome :: build_result
  log_lines :: "string list"
  map_file :: "string option"
  size_tool_error :: "string option"

text \<open>
  The class variables \<open>LOG_DEBUG_LINES\<close> and \<open>IGNORE_WARNS_REGEXES\<close>, and \<open>re.search\<close> for
  the patterns of the latter.
\<close>

record LogConfig =
  LOG_DEBUG_LINES :: int
  IGNORE_WARNS_REGEXES :: "string list"
  re_search :: "string \<Rightarrow> string \<Rightarrow> bool"

text \<open>\<open>str.rstrip()\<close> and \<open>str.lower()\<close> on ASCII text; \<open>lines[-n:]\<close> for an integer \<open>n\<close>.\<close>

definition is_space :: "char \<Rightarrow> bool" where
  "is_space c = (c \<in> set [CHR '' '', CHR 0x09, CHR 0x0A, CHR 0x0B, CHR 0x0C, CHR 0x0D,
                           CHR 0x1C, CHR 0x1D, CHR 0x1E, CHR 0x1F])"

definition rstrip :: "string \<Rightarrow> string" where
  "rstrip s = rev (dropWhile is_space (rev s))"

definition lower_char :: "char \<Rightarrow> char" where
  "lower_char c =
     (case map_of (zip ''ABCDEFGHIJKLMNOPQRSTUVWXYZ'' ''abcdefghijklmnopqrstuvwxyz'') c of
        Some l \<Rightarrow> l
      | None \<Rightarrow> c)"

definition last_lines :: "int \<Rightarrow> string list \<Rightarrow> string list" where
  "last_lines n lines =
     (if 0 < n then drop (length lines - nat n) lines
      else if n = 0 then lines
      else drop (nat (- n)) lines)"

text \<open>
  \<open>LOG_ERROR_WARNING_REGEX\<close>, \<open>(?:error|warning):\<close> without regard to case, searched in the
  line.
\<close>

definition log_error_warning_search :: "string \<Rightarrow> bool" where
  "log_error_warning_search line =
     (contains ''error:'' (map lower_char line) \<or> contains ''warning:'' (map lower_char line))"

definition is_error_or_warning :: "LogConfig \<Rightarrow> string \<Rightarrow> bool \<times> bool" where
  "is_error_or_warning L line =
     (if \<not> log_error_warning_search line then (False, False)
      else (True, list_ex (\<lambda>ignored. re_search L ignored line) (IGNORE_WARNS_REGEXES L)))"

text \<open>
  The loop over the lines of the log: the messages it logs, and the final value of
  \<open>has_unignored_warning\<close>.
\<close>

fun classify :: "LogConfig \<Rightarrow> string list \<Rightarrow> action list \<times> bool" where
  "classify L [] = ([], False)"
| "classify L (line # rest) =
     (case is_error_or_warning L line of
        (True, True) \<Rightarrow>
          (Log INFO (''[Ignored warning] '' @ line) # fst (classify L rest), snd (classify L rest))
      | (True, False) \<Rightarrow> (Log WARNING line # fst (classify L rest), True)
      | (False, _) \<Rightarrow> classify L rest)"

text \<open>The preparation of the work directory, the build directory and the sdkconfig file.\<close>

definition prepare :: "Externals \<Rightarrow> BuildWorld \<Rightarrow> App \<Rightarrow> action list" where
  "prepare X W self =
     [Log DEBUG ''=> Preparing...'']
     @ (if work_dir X self \<noteq> app_dir self then
          (if work_dir_exists W then
             Log DEBUG (''==> Work directory '' @ work_dir X self @ '' exists, removing'')
               # (if \<not> dry_run self then [Rmtree (work_dir X self)] else [])
           else [])
          @ Log DEBUG (''==> Copying app from '' @ app_dir self @ '' to '' @ work_dir X self)
              # (if \<not> dry_run self then [Copytree (app_dir self) (work_dir X self)] else [])
        else [])
     @ (if build_path_exists W then
          Log DEBUG (''==> Build directory '' @ build_path X self @ '' exists, removing'')
            # (if \<not> dry_run self then [Rmtree (build_path X self)] else [])
        else [])
     @ (if \<not> dry_run self then [Makedirs (build_path X self)] else [])
     @ (if sdkconfig_exists W then
          Log DEBUG (''==> Removing sdkconfig file: '' @ join (work_dir X self) ''sdkconfig'')
            # (if \<not> dry_run self then [Unlink (join (work_dir X self) ''sdkconfig'')] else [])
        else [])
     @ (case build_log_path X self of
          Some (c # cs) \<Rightarrow> [Log INFO (''=> Writing build log to '' @ c # cs)]
        | _ \<Rightarrow> [])"

text \<open>
  \<open>write_size_json\<close>: without a map file it warns and returns; otherwise it runs the size
  tool, whose failure is a \<open>BuildError\<close>.
\<close>

definition write_size_json :: "BuildWorld \<Rightarrow> string \<Rightarrow> action list \<times> exn option" where
  "write_size_json W size_path =
     (case map_file W of
        None \<Rightarrow>
          ([Log WARNING (''.map file not found. Cannot write size json to file: '' @ size_path)],
           None)
      | Some m \<Rightarrow>
          (case size_tool_error W of
             Some e \<Rightarrow> ([RunSizeTool size_path m], Some (BuildError e))
           | None \<Rightarrow>
               ([RunSizeTool size_path m, Log INFO (''=> Generated size info to '' @ size_path)],
                None)))"

definition exclude_list :: "Externals \<Rightarrow> App \<Rightarrow> string list" where
  "exclude_list X self =
     (case size_json_path X self of Some (c # cs) \<Rightarrow> [basename (c # cs)] | _ \<Rightarrow> [])
     @ (case build_log_path X self of Some (c # cs) \<Rightarrow> [basename (c # cs)] | _ \<Rightarrow> [])"

text \<open>
  What follows the run of \<open>_build\<close> when it returned or raised a \<open>BuildError\<close>:
  \<open>build_with_error\<close> is the message of the error if there is one, \<open>is_built\<close> the value
  returned (false after an error).
\<close>

definition after_build ::
  "Externals \<Rightarrow> LogConfig \<Rightarrow> BuildWorld \<Rightarrow> App \<Rightarrow> string \<Rightarrow> bool \<Rightarrow> string option \<Rightarrow> bool
     \<Rightarrow> action list \<times> build_result" where
  "after_build X L W self logname keep_logfile build_with_error is_built =
     (let lines = filter (\<lambda>l. l \<noteq> []) (map rstrip (log_lines W));
          has_unignored_warning = snd (classify L lines);
          acts1 = fst (classify L lines)
            @ (if build_with_error \<noteq> None then
                 Log ERROR (''Last '' @ str_int (LOG_DEBUG_LINES L)
                              @ '' lines from the build log '' @ [CHR 0x22] @ logname
                              @ [CHR 0x22] @ '':'')
                   # map (Log ERROR) (last_lines (LOG_DEBUG_LINES L) lines)
               else [])
            @ (if \<not> keep_logfile \<and> build_with_error = None then
                 [Unlink logname,
                  Log DEBUG (''==> Removed temporary build log file '' @ logname)]
               else []);
          size = (case size_json_path X self of
                    Some (c # cs) \<Rightarrow>
                      if is_built then write_size_json W (c # cs) else ([], None)
                  | _ \<Rightarrow> ([], None))
      in case snd size of
           Some e \<Rightarrow> (acts1 @ fst size, Raised e)
         | None \<Rightarrow>
             (let acts2 = acts1 @ fst size
                    @ (if \<not> preserve self then
                         [Log INFO (''=> Removing build directory '' @ build_path X self),
                          Rmdir (build_path X self) (exclude_list X self)]
                       else [])
              in case build_with_error of
                   Some e \<Rightarrow> (acts2, Raised (BuildError e))
                 | None \<Rightarrow>
                     if check_warnings self \<and> has_unignored_warning then
                       (acts2, Raised (BuildError ''Build succeeded with warnings''))
                     else if has_unignored_warning then
                       (acts2 @ [Log INFO ''=> Build succeeded with warnings''], Returned is_built)
                     else (acts2 @ [Log INFO ''=> Build succeeded''], Returned is_built)))"

definition build :: "Externals \<Rightarrow> LogConfig \<Rightarrow> BuildWorld \<Rightarrow> App \<Rightarrow> action list \<times> build_result" where
  "build X L W self =
     (if dry_run self then
        (prepare X W self @ [Log DEBUG ''==> Skipping... (dry run)''], Returned True)
      else
        (let logname = (case build_log_path X self of Some (c # cs) \<Rightarrow> c # cs | _ \<Rightarrow> temp_name W);
             keep_logfile = (case build_log_path X self of Some (c # cs) \<Rightarrow> True | _ \<Rightarrow> False);
             opened = prepare X W self
               @ [if keep_logfile then OpenLogfile logname else NamedTemporaryFile logname,
                  RunBuild, CloseLogfile logname]
         in case build_outcome W of
              Raised (OtherError e) \<Rightarrow> (opened, Raised (OtherError e))
            | Raised (BuildError e) \<Rightarrow>
                (opened @ fst (after_build X L W self logname keep_logfile (Some e) False),
                 snd (after_build X L W self logname keep_logfile (Some e) False))
            | Returned is_built \<Rightarrow>
                (opened @ fst (after_build X L W self logname keep_logfile None is_built),
                 snd (after_build X L W self logname keep_logfile None is_built))))"

text \<open>
  Notions used to state the properties of the lifecycle: the lines of the log as \<open>build\<close>
  reads them back (stripped on the right, empty ones left out), the error messages that show
  the end of the log after a failed build, and the removal of the build directory when it is
  not preserved.
\<close>

definition log_lines_read :: "BuildWorld \<Rightarrow> string list" where
  "log_lines_read W = filter (\<lambda>l. l \<noteq> []) (map rstrip (log_lines W))"

definition diagnostics :: "LogConfig \<Rightarrow> string \<Rightarrow> string list \<Rightarrow> action list" where
  "diagnostics L logname lines =
     Log ERROR (''Last '' @ str_int (LOG_DEBUG_LINES L) @ '' lines from the build log ''
                  @ [CHR 0x22] @ logname @ [CHR 0x22] @ '':'')
       # map (Log ERROR) (last_lines (LOG_DEBUG_LINES L) lines)"

definition cleanup :: "Externals \<Rightarrow> App \<Rightarrow> action list" where
  "cleanup X self =
     (if \<not> preserve self then
        [Log INFO (''=> Removing build directory '' @ build_path X self),
         Rmdir (build_path X self) (exclude_list X self)]
      else [])"

section \<open>Example inputs\<close>

text \<open>
  A file system without symbolic links, to evaluate the model on concrete inputs: the
  directories that exist, each as the list of its segments from the root, and the working
  directory.  \<open>posix_entry\<close> walks a path the way the system resolves it: every step starts
  from a directory that exists; \<open>..\<close> leads to the parent.
\<close>

definition entry_step :: "string list list \<Rightarrow> string list option \<Rightarrow> string \<Rightarrow> string list option" where
  "entry_step dirs acc seg =
     (case acc of
        None \<Rightarrow> None
      | Some segs \<Rightarrow>
          if segs \<notin> set dirs then None
          else if seg = [] \<or> seg = ''.'' then Some segs
          else if seg = ''..'' then Some (butlast segs)
          else Some (segs @ [seg]))"

definition posix_entry :: "string list list \<Rightarrow> string list \<Rightarrow> string \<Rightarrow> string option" where
  "posix_entry dirs cwd p =
     (if p = [] then None
      else map_option (\<lambda>segs. CHR ''/'' # join_with ''/'' segs)
             (foldl (entry_step dirs) (Some (if startswith p ''/'' then [] else cwd))
                (split_on CHR ''/'' p)))"

definition example_dirs :: "string list list" where
  "example_dirs =
     [[], [''repo''], [''repo'', ''app''], [''repo'', ''app'', ''expanded_sdkconfig_files''],
      [''repo'', ''app'', ''expanded_sdkconfig_files'', ''build'']]"

definition example_app :: App where
  "example_app =
     \<lparr>app_class = CMakeApp, app_dir = ''/repo/app'', target = ''esp32'', sdkconfig_path = None,
      config_name = None, should_build = UNKNOWN, raw_work_dir = ''/repo/app'',
      raw_build_dir = ''build'', raw_build_log_path = None, raw_size_json_path = None,
      dry_run = False, index = None, verbose = False, check_warnings = False,
      preserve = True, parallel_index = 1, parallel_count = 1,
      checked_should_build = False, sdkconfig_defaults = [''sdkconfig.defaults''],
      sdkconfig_files = [], sdkconfig_files_defined_target = None, cmake_vars = Map.empty\<rparr>"

definition example_manifest :: Manifest where
  "example_manifest =
     \<lparr>manifest_depends_components = (\<lambda>d. [''esp_wifi'']),
      manifest_depends_filepatterns = (\<lambda>d. [])\<rparr>"

definition example_externals :: Externals where
  "example_externals =
     \<lparr>MANIFEST = None, to_absolute_path = posix_resolve [''repo''],
      files_matches_patterns = (\<lambda>fs pats root. False),
      environ = [''HOME'' \<mapsto> ''/root''],
      realpath = (\<lambda>p. normpath (join ''/repo'' p)),
      IDF_VERSION_MAJOR = 5, IDF_VERSION_MINOR = 1, IDF_VERSION_PATCH = 2,
      wildcard_glob = (\<lambda>fs d pat. []),
      path_entry = posix_entry example_dirs [''repo'']\<rparr>"




definition example_files :: files where
  "example_files =
     [''/repo/app/sdkconfig.defaults'' \<mapsto>
        ''CONFIG_A=1'' @ [CHR 0x0A] @ ''TEST_GROUPS=foo'' @ [CHR 0x0A]
          @ ''TEST_COMPONENTS='' @ [CHR 0x22] @ ''bar'' @ [CHR 0x22, CHR 0x0A] @ ''CONFIG_IDF_TARGET=esp32s2'' @ [CHR 0x0A],
      ''/repo/app/sdkconfig.defaults.esp32'' \<mapsto> ''CONFIG_B=2'' @ [CHR 0x0A],
      ''/repo/app/sdkconfig.ci'' \<mapsto> ''CONFIG_C=3'' @ [CHR 0x0A]]"

text \<open>
  A candidate that lies in the scratch directory of the example App, under its absolute
  path and under a relative path with a leading \<open>.\<close> segment.
\<close>

definition example_scratch_app :: App where
  "example_scratch_app =
     example_app\<lparr>sdkconfig_defaults :=
       [''/repo/app/expanded_sdkconfig_files/build/sdkconfig.defaults'']\<rparr>"

definition example_scratch_app_relative :: App where
  "example_scratch_app_relative =
     example_app\<lparr>sdkconfig_defaults :=
       [''./expanded_sdkconfig_files/build/sdkconfig.defaults'']\<rparr>"

definition example_scratch_files :: files where
  "example_scratch_files =
     [''/repo/app/expanded_sdkconfig_files/build/sdkconfig.defaults'' \<mapsto>
        ''CONFIG_A=1'' @ [CHR 0x0A] @ ''TEST_GROUPS=foo'' @ [CHR 0x0A]]"

definition example_log_config :: LogConfig where
  "example_log_config =
     \<lparr>LOG_DEBUG_LINES = 25, IGNORE_WARNS_REGEXES = [''undefined reference''],
      re_search = (\<lambda>pat line. contains pat line)\<rparr>"

definition example_world :: BuildWorld where
  "example_world =
     \<lparr>work_dir_exists = True, build_path_exists = True, sdkconfig_exists = False,
      temp_name = ''/tmp/tmpab12'', build_outcome = Raised (BuildError ''make failed''),
      log_lines = [''compiling'' @ [CHR 0x0A], [CHR 0x0A],
                   ''CMakeError: error: undefined reference'' @ [CHR 0x0A],
                   ''main.c:3: Warning: unused variable  '' @ [CHR 0x0A]],
      map_file = None, size_tool_error = None\<rparr>"

section \<open>Properties of path expansion\<close>

lemma find_str_ge: "- 1 \<le> find_str sub s"
  by (induction s) (auto simp: Let_def)

lemma find_str_Cons_absent:
  "find_str sub (c # cs) = - 1 \<longleftrightarrow> \<not> startswith (c # cs) sub \<and> find_str sub cs = - 1"
  using find_str_ge[of sub cs] by (auto simp: Let_def)

lemma py_replace_absent:
  "sub \<noteq> [] \<Longrightarrow> find_str sub s = - 1 \<Longrightarrow> py_replace sub new s = s"
proof (induction s)
  case Nil
  then show ?case by simp
next
  case (Cons c cs)
  then show ?case by (simp del: find_str.simps add: find_str_Cons_absent)
qed

lemma py_replace_not_contains:
  "sub \<noteq> [] \<Longrightarrow> \<not> contains sub s \<Longrightarrow> py_replace sub new s = s"
  by (simp add: contains_def py_replace_absent)

lemma expandvars_no_dollar: "CHR ''$'' \<notin> set s \<Longrightarrow> expandvars env s = s"
  by (induction s) auto




lemma expand_tokens_no_placeholder:
  "no_placeholder path \<Longrightarrow> expand_tokens X self path = path"
  by (simp add: no_placeholder_def expand_tokens_def expand_head_def py_replace_not_contains split: option.splits)

lemma expand_wildcard_absent:
  "\<not> contains ''@w'' path \<Longrightarrow> expand_wildcard self path = path"
  by (simp add: expand_wildcard_def contains_def)



lemmas expand_eval = expand_def expand_tokens_def expand_head_def expand_wildcard_def name_def basename_def
  startswith_def endswith_def contains_def str_int_def str_nat.simps digit_char_def
  example_app_def example_externals_def normpath_def join_def initial_slashes_def
  normpath_step_def var_match_def is_word_char_def Let_def
  expand_full_name_first_def expand_tokens_full_name_first_def










text \<open>
  Claim C4, as amended.  For a path that contains none of the placeholder tokens \<open>_expand\<close>
  returns \<open>os.path.expandvars\<close> of the path, whatever the App and the file system are; so it
  returns the path unchanged when the path contains no \<open>$\<close> either.
\<close>

theorem expand_without_placeholders:
  "no_placeholder path \<longrightarrow>
     expand X self path = expandvars (environ X) path
     \<and> (CHR ''$'' \<notin> set path \<longrightarrow> expand X self path = path)"
proof (intro impI)
  assume np: "no_placeholder path"
  then have nw: "\<not> contains ''@w'' path" by (simp add: no_placeholder_def)
  have "expand X self path = expandvars (environ X) path"
  proof (cases "path = []")
    case True
    then show ?thesis by (simp add: expand_def)
  next
    case False
    then show ?thesis
      by (simp only: expand_def expand_tokens_no_placeholder[OF np]
          expand_wildcard_absent[OF nw] if_False)
  qed
  then show "expand X self path = expandvars (environ X) path
     \<and> (CHR ''$'' \<notin> set path \<longrightarrow> expand X self path = path)"
    by (simp add: expandvars_no_dollar)
qed

theorem expand_without_placeholders_witness:
  "no_placeholder ''build/out'' \<and> CHR ''$'' \<notin> set ''build/out''
   \<and> expand example_externals example_app ''build/out'' = ''build/out''
   \<and> no_placeholder ''$HOME/build''
   \<and> expand example_externals example_app ''$HOME/build'' = expandvars (environ example_externals) ''$HOME/build''"
  using expand_without_placeholders[of "''build/out''" example_externals example_app]
    expand_without_placeholders[of "''$HOME/build''" example_externals example_app]
  by (simp add: no_placeholder_def contains_def startswith_def)

text \<open>
  The claim as stated fails: the path \<open>$HOME/build\<close> contains no placeholder token, and
  \<open>_expand\<close> changes it where \<open>HOME\<close> is set.  Nor is \<open>_expand\<close> independent of the file
  system: the name placeholder is replaced by the last component of
  \<open>os.path.realpath(app_dir)\<close>, so two file systems that resolve the app directory differently
  give different results for the same App and path.
\<close>

theorem expand_without_placeholders_counterexample:
  "no_placeholder ''$HOME/build''
   \<and> expand example_externals example_app ''$HOME/build'' = ''/root/build''
   \<and> expand example_externals example_app ''$HOME/build'' \<noteq> ''$HOME/build''
   \<and> expand example_externals example_app ''@n'' = ''app''
   \<and> expand (example_externals\<lparr>realpath := (\<lambda>p. ''/mnt/checkout'')\<rparr>) example_app ''@n'' = ''checkout''"
  by (simp add: expand_eval no_placeholder_def)

text \<open>
  Claim C5, as amended.  \<open>_expand\<close> replaces the name placeholder first and the full name
  placeholder after it.  The text that the full name substitution inserts is therefore never
  searched for the name placeholder: when the path has no name placeholder before that
  substitution, the name of the App does not enter the result, even where the escaped app
  directory contains \<open>@n\<close>.
\<close>

theorem expand_name_then_full_name:
  "expand_tokens X self path =
     py_replace ''@f'' (py_replace ''/'' ''_'' (app_dir self))
       (py_replace ''@n'' (name X self) (expand_head X self path))
   \<and> (\<not> contains ''@n'' (expand_head X self path) \<longrightarrow>
        expand_tokens X self path =
          py_replace ''@f'' (py_replace ''/'' ''_'' (app_dir self)) (expand_head X self path))
   \<and> (path \<noteq> [] \<longrightarrow>
        expand X self path =
          expandvars (environ X) (expand_wildcard self
            (py_replace ''@f'' (py_replace ''/'' ''_'' (app_dir self))
               (py_replace ''@n'' (name X self) (expand_head X self path)))))"
proof -
  have a: "expand_tokens X self path =
     py_replace ''@f'' (py_replace ''/'' ''_'' (app_dir self))
       (py_replace ''@n'' (name X self) (expand_head X self path))"
    by (simp add: expand_tokens_def Let_def py_replace_not_contains)
  show ?thesis
    using a by (simp add: expand_def py_replace_not_contains)
qed

text \<open>
  For the app directory \<open>/repo/@n/app\<close>, whose name is \<open>app\<close>, the path \<open>@f/@n\<close> expands to
  \<open>_repo_@n_app/app\<close>: the \<open>@n\<close> that the full name brings in stays as it is.
\<close>

theorem expand_name_then_full_name_witness:
  "expand example_externals (example_app\<lparr>app_dir := ''/repo/@n/app''\<rparr>) ''@f/@n'' = ''_repo_@n_app/app''
   \<and> \<not> contains ''@n'' (expand_head example_externals (example_app\<lparr>app_dir := ''/repo/@n/app''\<rparr>) ''@f'')
   \<and> expand_tokens example_externals (example_app\<lparr>app_dir := ''/repo/@n/app''\<rparr>) ''@f'' = ''_repo_@n_app''"
  using expand_name_then_full_name[of example_externals "example_app\<lparr>app_dir := ''/repo/@n/app''\<rparr>" "''@f/@n''"]
    expand_name_then_full_name[of example_externals "example_app\<lparr>app_dir := ''/repo/@n/app''\<rparr>" "''@f''"]
  by (simp add: expand_eval)

text \<open>
  The claim as stated fails on the order: with the app directory \<open>/repo/@f\<close> the path \<open>@n\<close>
  expands to \<open>_repo_@f\<close>, since the name \<open>@f\<close> is inserted first and the full name
  substitution then expands it; had the full name been substituted first, the result would be
  \<open>@f\<close>.  Likewise for \<open>/repo/@n/app\<close> and the path \<open>@f\<close>.
\<close>

theorem expand_full_name_first_counterexample:
  "expand example_externals (example_app\<lparr>app_dir := ''/repo/@f''\<rparr>) ''@n'' = ''_repo_@f''
   \<and> expand_full_name_first example_externals (example_app\<lparr>app_dir := ''/repo/@f''\<rparr>) ''@n'' = ''@f''
   \<and> expand example_externals (example_app\<lparr>app_dir := ''/repo/@n/app''\<rparr>) ''@f'' = ''_repo_@n_app''
   \<and> expand_full_name_first example_externals (example_app\<lparr>app_dir := ''/repo/@n/app''\<rparr>) ''@f'' = ''_repo_app_app''"
  by (simp add: expand_eval)

section \<open>Properties of the build path\<close>

lemma split_on_not_Nil: "split_on c xs \<noteq> []"
  by (induction xs) (auto split: list.splits)

lemma split_on_free: "w \<in> set (split_on c xs) \<Longrightarrow> c \<notin> set w"
proof (induction xs arbitrary: w)
  case Nil
  then show ?case by simp
next
  case (Cons x xs)
  show ?case
  proof (cases "x = c")
    case True
    with Cons show ?thesis by auto
  next
    case False
    obtain v vs where s: "split_on c xs = v # vs"
      using split_on_not_Nil[of c xs] by (cases "split_on c xs") auto
    with Cons.prems False have "w = x # v \<or> w \<in> set vs" by auto
    then show ?thesis using Cons.IH[of v] Cons.IH[of w] s False by auto
  qed
qed

lemma split_on_plain: "c \<notin> set w \<Longrightarrow> split_on c w = [w]"
  by (induction w) auto

lemma split_on_append: "c \<notin> set w \<Longrightarrow> split_on c (w @ c # rest) = w # split_on c rest"
  by (induction w) auto

lemma split_on_join:
  "cs \<noteq> [] \<Longrightarrow> \<forall>w \<in> set cs. CHR ''/'' \<notin> set w \<Longrightarrow>
     split_on CHR ''/'' (join_with ''/'' cs) = cs"
proof (induction "''/''" cs rule: join_with.induct)
  case 1
  then show ?case by simp
next
  case (2 w)
  then show ?case by (simp add: split_on_plain)
next
  case (3 w v ws)
  then show ?case using split_on_append[of "CHR ''/''" w "join_with ''/'' (v # ws)"] by simp
qed

lemma normpath_step_plain:
  "0 < s \<Longrightarrow> plain_segments cs \<Longrightarrow> CHR ''/'' \<notin> set seg \<Longrightarrow>
     plain_segments (normpath_step s cs seg)"
  by (cases cs rule: rev_cases)
    (auto simp: plain_segments_def normpath_step_def dest: in_set_butlastD)

lemma foldl_step_plain:
  "0 < s \<Longrightarrow> plain_segments cs \<Longrightarrow> \<forall>seg \<in> set segs. CHR ''/'' \<notin> set seg \<Longrightarrow>
     plain_segments (foldl (normpath_step s) cs segs)"
  by (induction segs arbitrary: cs) (simp_all add: normpath_step_plain)

lemma foldl_step_append:
  "plain_segments acc \<Longrightarrow> plain_segments cs \<Longrightarrow>
     foldl (normpath_step s) acc cs = acc @ cs"
proof (induction cs arbitrary: acc)
  case Nil
  then show ?case by simp
next
  case (Cons c cs)
  have st: "normpath_step s acc c = acc @ [c]"
    using Cons.prems by (simp add: normpath_step_def plain_segments_def)
  have "plain_segments (acc @ [c])" "plain_segments cs"
    using Cons.prems by (simp_all add: plain_segments_def)
  from Cons.IH[OF this] show ?case using st by simp
qed

lemma foldl_step_empty:
  "foldl (normpath_step s) acc (replicate n [] @ segs) = foldl (normpath_step s) acc segs"
  by (induction n) (simp_all add: normpath_step_def)

lemma split_on_slashes:
  "split_on CHR ''/'' (replicate n CHR ''/'' @ t) = replicate n [] @ split_on CHR ''/'' t"
  by (induction n) simp_all

lemma join_with_no_slash:
  "plain_segments cs \<Longrightarrow> \<not> startswith (join_with ''/'' cs @ t) ''/'' \<or> (cs = [] \<and> startswith t ''/'')"
proof (cases cs)
  case Nil
  then show ?thesis by (simp add: startswith_def)
next
  case (Cons w ws)
  assume "plain_segments cs"
  with Cons obtain x xs where "w = x # xs" "x \<noteq> CHR ''/''"
    by (cases w) (auto simp: plain_segments_def)
  with Cons show ?thesis by (cases ws) (auto simp: startswith_def)
qed

lemma initial_slashes_result:
  assumes "plain_segments cs" "s = 1 \<or> s = 2"
  shows "initial_slashes (replicate s CHR ''/'' @ join_with ''/'' cs) = s"
proof -
  have n: "\<not> startswith (join_with ''/'' cs) ''/''"
    using join_with_no_slash[OF assms(1), of "[]"] by (auto simp: startswith_def)
  from assms(2) show ?thesis
  proof
    assume "s = 1"
    then show ?thesis using n
      by (cases "join_with ''/'' cs") (auto simp: initial_slashes_def startswith_def)
  next
    assume "s = 2"
    then show ?thesis using n
      by (cases "join_with ''/'' cs") (auto simp: initial_slashes_def startswith_def numeral_2_eq_2)
  qed
qed

lemma normpath_of_plain:
  assumes "plain_segments cs" "s = 1 \<or> s = 2"
  shows "normpath (replicate s CHR ''/'' @ join_with ''/'' cs)
     = replicate s CHR ''/'' @ join_with ''/'' cs"
proof -
  let ?r = "replicate s CHR ''/'' @ join_with ''/'' cs"
  have ne: "?r \<noteq> []" using assms(2) by auto
  have i: "initial_slashes ?r = s" by (rule initial_slashes_result[OF assms])
  have sp: "split_on CHR ''/'' ?r = replicate s [] @ split_on CHR ''/'' (join_with ''/'' cs)"
    by (rule split_on_slashes)
  have f: "foldl (normpath_step s) [] (split_on CHR ''/'' ?r) = cs"
  proof (cases "cs = []")
    case True
    then show ?thesis unfolding sp foldl_step_empty by (simp add: normpath_step_def)
  next
    case False
    have "split_on CHR ''/'' (join_with ''/'' cs) = cs"
      using split_on_join[OF False] assms(1) by (simp add: plain_segments_def)
    then show ?thesis unfolding sp foldl_step_empty
      using foldl_step_append[of "[]" cs s] assms(1) by (simp add: plain_segments_def)
  qed
  show ?thesis
    using ne unfolding normpath_def Let_def i f by simp
qed

lemma normpath_absolute_form:
  assumes "startswith q ''/''"
  shows "\<exists>s cs. (s = 1 \<or> s = 2) \<and> plain_segments cs
           \<and> normpath q = replicate s CHR ''/'' @ join_with ''/'' cs"
proof -
  let ?s = "initial_slashes q"
  let ?cs = "foldl (normpath_step ?s) [] (split_on CHR ''/'' q)"
  have s: "?s = 1 \<or> ?s = 2" using assms by (simp add: initial_slashes_def)
  then have pos: "0 < ?s" by auto
  have pl: "plain_segments ?cs"
    using foldl_step_plain[OF pos, of "[]" "split_on CHR ''/'' q"] split_on_free[of _ "CHR ''/''" q]
    by (auto simp: plain_segments_def)
  have ne: "q \<noteq> []" using assms by (auto simp: startswith_def)
  have r: "replicate ?s CHR ''/'' @ join_with ''/'' ?cs \<noteq> []" using s by auto
  have "normpath q = replicate ?s CHR ''/'' @ join_with ''/'' ?cs"
    unfolding normpath_def Let_def by (simp only: ne r if_False)
  with s pl show ?thesis by blast
qed

lemma normpath_absolute:
  assumes "startswith q ''/''"
  shows "isabs (normpath q)" and "normpath (normpath q) = normpath q"
proof -
  from normpath_absolute_form[OF assms] obtain s cs where
    s: "s = 1 \<or> s = 2" and pl: "plain_segments cs"
    and n: "normpath q = replicate s CHR ''/'' @ join_with ''/'' cs" by blast
  show "isabs (normpath q)" using s n by (auto simp: isabs_def startswith_def numeral_2_eq_2)
  show "normpath (normpath q) = normpath q"
    unfolding n by (rule normpath_of_plain[OF pl s])
qed

lemma join_absolute: "startswith a ''/'' \<Longrightarrow> startswith (join a p) ''/''"
  by (cases a) (auto simp: join_def startswith_def)

lemma example_realpath:
  "isabs (realpath example_externals p)"
  "normpath (realpath example_externals p) = realpath example_externals p"
proof -
  have a: "startswith (join ''/repo'' p) ''/''"
    by (rule join_absolute) (simp add: startswith_def)
  show "isabs (realpath example_externals p)"
    using normpath_absolute(1)[OF a] by (simp add: example_externals_def)
  show "normpath (realpath example_externals p) = realpath example_externals p"
    using normpath_absolute(2)[OF a] by (simp add: example_externals_def)
qed

text \<open>
  Claim C6, as amended.  When the expanded build directory is absolute, \<open>build_path\<close> is
  that string as it is, an absolute path.  Otherwise \<open>build_path\<close> is \<open>os.path.realpath\<close>
  of the build directory joined to the work directory.  So \<open>build_path\<close> is absolute whenever
  \<open>os.path.realpath\<close> returns absolute paths, and for a relative build directory it is also
  normalized whenever \<open>os.path.realpath\<close> returns normalized paths.
\<close>

theorem build_path_cases:
  "(isabs (build_dir X self) \<longrightarrow>
      build_path X self = build_dir X self \<and> isabs (build_path X self))
   \<and> (\<not> isabs (build_dir X self) \<longrightarrow>
        build_path X self = realpath X (join (work_dir X self) (build_dir X self)))
   \<and> ((\<forall>p. isabs (realpath X p)) \<longrightarrow> isabs (build_path X self))
   \<and> (\<not> isabs (build_dir X self)
        \<and> (\<forall>p. isabs (realpath X p) \<and> normpath (realpath X p) = realpath X p) \<longrightarrow>
        isabs (build_path X self) \<and> normpath (build_path X self) = build_path X self)"
  by (simp add: build_path_def)

text \<open>
  The theorem on the example, where \<open>os.path.realpath\<close> is \<open>normpath\<close> of the path joined to
  the working directory \<open>/repo\<close>, which returns absolute, normalized paths: the build
  directory \<open>build\<close> gives \<open>/repo/app/build\<close>, and the absolute build directory
  \<open>/tmp/build_@t\<close> gives \<open>/tmp/build_esp32\<close>.
\<close>

theorem build_path_cases_witness:
  "\<not> isabs (build_dir example_externals example_app)
   \<and> build_dir example_externals example_app = ''build''
   \<and> build_path example_externals example_app = ''/repo/app/build''
   \<and> isabs (build_path example_externals example_app)
   \<and> normpath (build_path example_externals example_app)
       = build_path example_externals example_app
   \<and> isabs (build_dir example_externals (example_app\<lparr>raw_build_dir := ''/tmp/build_@t''\<rparr>))
   \<and> build_path example_externals (example_app\<lparr>raw_build_dir := ''/tmp/build_@t''\<rparr>)
       = ''/tmp/build_esp32''"
proof -
  have c: "\<forall>p. isabs (realpath example_externals p)
       \<and> normpath (realpath example_externals p) = realpath example_externals p"
    using example_realpath by simp
  have b: "build_dir example_externals example_app = ''build''"
    "build_dir example_externals (example_app\<lparr>raw_build_dir := ''/tmp/build_@t''\<rparr>)
       = ''/tmp/build_esp32''"
    "work_dir example_externals example_app = ''/repo/app''"
    by (simp_all add: build_dir_def work_dir_def expand_eval)
  have r: "realpath example_externals (join ''/repo/app'' ''build'') = ''/repo/app/build''"
    by (simp add: expand_eval)
  have i: "\<not> isabs ''build''" "isabs ''/tmp/build_esp32''"
    by (simp_all add: isabs_def startswith_def)
  have p1: "build_path example_externals example_app
       = realpath example_externals (join ''/repo/app'' ''build'')"
    and p2: "isabs (build_path example_externals example_app)
       \<and> normpath (build_path example_externals example_app)
           = build_path example_externals example_app"
    using build_path_cases[of example_externals example_app] c b i by simp_all
  have p3: "build_path example_externals (example_app\<lparr>raw_build_dir := ''/tmp/build_@t''\<rparr>)
       = ''/tmp/build_esp32''"
    using build_path_cases[of example_externals "example_app\<lparr>raw_build_dir := ''/tmp/build_@t''\<rparr>"]
      b i by simp
  show ?thesis
    using p1 p2 p3 by (simp add: b r i)
qed

text \<open>
  Claim C6 as it is worded fails for an absolute build directory that is not normalized:
  \<open>/tmp//out/../build_@t/\<close> is returned with its double slash, its \<open>..\<close> segment and its
  trailing slash, while the normalized path is \<open>/tmp/build_esp32\<close>.
\<close>

theorem build_path_counterexample:
  "build_path example_externals (example_app\<lparr>raw_build_dir := ''/tmp//out/../build_@t/''\<rparr>)
     = ''/tmp//out/../build_esp32/''
   \<and> normpath ''/tmp//out/../build_esp32/'' = ''/tmp/build_esp32''"
  by (simp add: build_path_def build_dir_def isabs_def expand_eval)

section \<open>Properties of the sdkconfig pipeline\<close>

















lemmas entry_eval = posix_entry_def entry_step_def example_dirs_def startswith_def

lemmas fs_eval = isfile_def read_file_def write_file_def unlink_def isabs_def join_def
  basename_def startswith_def endswith_def Let_def

lemma example_scratch_entry:
  "path_entry example_externals ''/repo/app/expanded_sdkconfig_files/build/sdkconfig.defaults''
     = Some ''/repo/app/expanded_sdkconfig_files/build/sdkconfig.defaults''"
  "path_entry example_externals ''/repo/app/./expanded_sdkconfig_files/build/sdkconfig.defaults''
     = Some ''/repo/app/expanded_sdkconfig_files/build/sdkconfig.defaults''"
  by (simp_all add: example_externals_def entry_eval)

lemma example_scratch_dirs:
  "work_dir example_externals example_scratch_app = ''/repo/app''"
  "work_dir example_externals example_scratch_app_relative = ''/repo/app''"
  "expanded_dir example_externals example_scratch_app
     = ''/repo/app/expanded_sdkconfig_files/build''"
  "expanded_dir example_externals example_scratch_app_relative
     = ''/repo/app/expanded_sdkconfig_files/build''"
  by (simp_all add: expanded_dir_def work_dir_def build_dir_def expand_eval
      example_scratch_app_def example_scratch_app_relative_def)

lemma example_scratch_candidates:
  "sdkconfig_candidates example_scratch_app
     = [''/repo/app/expanded_sdkconfig_files/build/sdkconfig.defaults'']"
  "sdkconfig_candidates example_scratch_app_relative
     = [''./expanded_sdkconfig_files/build/sdkconfig.defaults'']"
  by (simp_all add: sdkconfig_candidates_def example_scratch_app_def
      example_scratch_app_relative_def example_app_def)

lemma example_scratch_round:
  "process_file example_externals ''/repo/app/expanded_sdkconfig_files/build''
     ''/repo/app/expanded_sdkconfig_files/build/sdkconfig.defaults''
     (example_scratch_app, example_scratch_files, [])
   = Inr (example_scratch_app, Map.empty,
          [''/repo/app/expanded_sdkconfig_files/build/sdkconfig.defaults''])"
  by (simp add: process_file_def fs_eval example_scratch_entry example_scratch_files_def)

lemma example_scratch_round_relative:
  "process_file example_externals ''/repo/app/expanded_sdkconfig_files/build''
     ''./expanded_sdkconfig_files/build/sdkconfig.defaults''
     (example_scratch_app_relative, example_scratch_files, [])
   = Inr (example_scratch_app_relative, Map.empty,
          [''/repo/app/./expanded_sdkconfig_files/build/sdkconfig.defaults''])"
  by (simp add: process_file_def fs_eval example_scratch_entry example_scratch_dirs
      example_scratch_files_def)

text \<open>
  Claim C7, on a candidate that is its own scratch copy.  The candidate
  \<open>/repo/app/expanded_sdkconfig_files/build/sdkconfig.defaults\<close> lies in the scratch
  directory of the App, so the scratch copy of the round is the candidate file itself.  Its
  text holds a \<open>TEST_GROUPS\<close> line: the normalized text differs from it, and by the claim the
  scratch copy with the normalized text is listed in place of the file.  The pipeline instead
  empties the file when it opens the scratch copy for writing, reads no line, finds the two
  texts equal, unlinks the file and lists the candidate: the output list names a file that
  is gone, and no file holds the normalized text.  When the candidate is given as
  \<open>./expanded_sdkconfig_files/build/sdkconfig.defaults\<close>, the output list holds the path of
  the candidate as the round spells it, which is not the path of the scratch copy.
\<close>

theorem sdkconfig_scratch_candidate_lost:
  "isfile example_externals example_scratch_files
     ''/repo/app/expanded_sdkconfig_files/build/sdkconfig.defaults''
   \<and> read_file example_externals example_scratch_files
        ''/repo/app/expanded_sdkconfig_files/build/sdkconfig.defaults''
       = ''CONFIG_A=1'' @ [CHR 0x0A] @ ''TEST_GROUPS=foo'' @ [CHR 0x0A]
   \<and> normalized_text example_externals example_scratch_app
        (''CONFIG_A=1'' @ [CHR 0x0A] @ ''TEST_GROUPS=foo'' @ [CHR 0x0A])
       = ''CONFIG_A=1'' @ [CHR 0x0A]
   \<and> process_sdkconfig_files example_externals example_scratch_app example_scratch_files
       = Inr (example_scratch_app\<lparr>sdkconfig_files :=
                [''/repo/app/expanded_sdkconfig_files/build/sdkconfig.defaults'']\<rparr>,
              Map.empty)
   \<and> \<not> isfile example_externals Map.empty
          ''/repo/app/expanded_sdkconfig_files/build/sdkconfig.defaults''
   \<and> process_sdkconfig_files example_externals example_scratch_app_relative
         example_scratch_files
       = Inr (example_scratch_app_relative\<lparr>sdkconfig_files :=
                [''/repo/app/./expanded_sdkconfig_files/build/sdkconfig.defaults'']\<rparr>,
              Map.empty)
   \<and> expanded_fp ''/repo/app/expanded_sdkconfig_files/build''
         ''/repo/app/./expanded_sdkconfig_files/build/sdkconfig.defaults''
       = ''/repo/app/expanded_sdkconfig_files/build/sdkconfig.defaults''"
proof (intro conjI)
  show "isfile example_externals example_scratch_files
     ''/repo/app/expanded_sdkconfig_files/build/sdkconfig.defaults''"
    by (simp add: isfile_def example_scratch_entry example_scratch_files_def)
  show "read_file example_externals example_scratch_files
        ''/repo/app/expanded_sdkconfig_files/build/sdkconfig.defaults''
       = ''CONFIG_A=1'' @ [CHR 0x0A] @ ''TEST_GROUPS=foo'' @ [CHR 0x0A]"
    by (simp add: read_file_def example_scratch_entry example_scratch_files_def)
  show "normalized_text example_externals example_scratch_app
        (''CONFIG_A=1'' @ [CHR 0x0A] @ ''TEST_GROUPS=foo'' @ [CHR 0x0A])
       = ''CONFIG_A=1'' @ [CHR 0x0A]"
    by (simp add: normalized_text_def process_line_def sdkconfig_line_match_def
        SDKCONFIG_TEST_OPTS_def SDKCONFIG_IGNORE_OPTS_def startswith_def Let_def
        example_scratch_app_def example_app_def example_externals_def)
  show "process_sdkconfig_files example_externals example_scratch_app example_scratch_files
       = Inr (example_scratch_app\<lparr>sdkconfig_files :=
                [''/repo/app/expanded_sdkconfig_files/build/sdkconfig.defaults'']\<rparr>,
              Map.empty)"
    by (simp add: process_sdkconfig_files_def example_scratch_candidates example_scratch_dirs
        example_scratch_round)
  show "\<not> isfile example_externals Map.empty
          ''/repo/app/expanded_sdkconfig_files/build/sdkconfig.defaults''"
    by (simp add: isfile_def example_scratch_entry)
  show "process_sdkconfig_files example_externals example_scratch_app_relative
         example_scratch_files
       = Inr (example_scratch_app_relative\<lparr>sdkconfig_files :=
                [''/repo/app/./expanded_sdkconfig_files/build/sdkconfig.defaults'']\<rparr>,
              Map.empty)"
    by (simp add: process_sdkconfig_files_def example_scratch_candidates example_scratch_dirs
        example_scratch_round_relative)
  show "expanded_fp ''/repo/app/expanded_sdkconfig_files/build''
         ''/repo/app/./expanded_sdkconfig_files/build/sdkconfig.defaults''
       = ''/repo/app/expanded_sdkconfig_files/build/sdkconfig.defaults''"
    by (simp add: expanded_fp_def fs_eval)
qed

section \<open>Properties of the build decision\<close>

lemma decided_unchanged:
  "should_build self \<noteq> UNKNOWN \<Longrightarrow> check_should_build X c self = self"
  by (simp add: check_should_build_def)

lemma transition_shape:
  "should_build (check_should_build X c self) \<noteq> should_build self \<Longrightarrow>
     should_build self = UNKNOWN \<and> should_build (check_should_build X c self) \<in> {YES, NO}"
  by (cases "should_build (check_should_build X c self)")
     (auto simp: check_should_build_def Let_def split: if_splits)

lemma decisions_hd: "decisions X cs self = should_build self # tl (decisions X cs self)"
  by (cases cs) simp_all

lemma changes_decided:
  "should_build self \<noteq> UNKNOWN \<Longrightarrow> changes (decisions X cs self) = 0"
proof (induction cs)
  case Nil
  then show ?case by simp
next
  case (Cons c cs)
  then have "check_should_build X c self = self" by (simp add: decided_unchanged)
  moreover obtain r where "decisions X cs self = should_build self # r"
    using decisions_hd by blast
  ultimately show ?case using Cons by simp
qed

lemma changes_le_one: "changes (decisions X cs self) \<le> 1"
proof (induction cs arbitrary: self)
  case Nil
  then show ?case by simp
next
  case (Cons c cs)
  let ?s = "check_should_build X c self"
  obtain r where r: "decisions X cs ?s = should_build ?s # r"
    using decisions_hd by blast
  show ?case
  proof (cases "should_build ?s = should_build self")
    case True
    then show ?thesis using Cons.IH[of ?s] r by simp
  next
    case False
    then have "should_build ?s \<noteq> UNKNOWN"
      using transition_shape[of X c self] by auto
    then have "changes (decisions X cs ?s) = 0" by (rule changes_decided)
    then show ?thesis using r False by simp
  qed
qed

text \<open>
  Claim C2.  The build decision is sticky: on an App whose \<open>should_build\<close> is already
  \<open>YES\<close> or \<open>NO\<close>, \<open>check_should_build\<close> changes nothing, whatever its arguments; a
  call changes \<open>should_build\<close> only from \<open>UNKNOWN\<close> to \<open>YES\<close> or \<open>NO\<close>; and along any
  sequence of calls on one App the value changes at most once.
\<close>

theorem should_build_sticky:
  "(should_build self \<noteq> UNKNOWN \<longrightarrow> check_should_build X c self = self)
   \<and> (should_build (check_should_build X c self) \<noteq> should_build self \<longrightarrow>
        should_build self = UNKNOWN \<and> should_build (check_should_build X c self) \<in> {YES, NO})
   \<and> changes (decisions X cs self) \<le> 1"
  using decided_unchanged transition_shape changes_le_one by blast

text \<open>
  The theorem at an App already decided \<open>NO\<close>: a call that disables the dependency check
  (which would answer \<open>YES\<close>) leaves it as it is.  And on the undecided example App a call
  that answers \<open>YES\<close>, followed by one with other arguments, changes the value once.
\<close>

theorem should_build_sticky_witness:
  "should_build (example_app\<lparr>should_build := NO\<rparr>) \<noteq> UNKNOWN
   \<and> check_should_build example_externals
        \<lparr>manifest_rootpath = None, check_app_dependencies = False,
         modified_components = None, modified_files = None\<rparr>
        (example_app\<lparr>should_build := NO\<rparr>) = example_app\<lparr>should_build := NO\<rparr>
   \<and> decisions example_externals
        [\<lparr>manifest_rootpath = None, check_app_dependencies = False,
          modified_components = None, modified_files = None\<rparr>,
         \<lparr>manifest_rootpath = None, check_app_dependencies = True,
          modified_components = Some (Lst []), modified_files = None\<rparr>]
        example_app = [UNKNOWN, YES, YES]
   \<and> changes (decisions example_externals
        [\<lparr>manifest_rootpath = None, check_app_dependencies = False,
          modified_components = None, modified_files = None\<rparr>,
         \<lparr>manifest_rootpath = None, check_app_dependencies = True,
          modified_components = Some (Lst []), modified_files = None\<rparr>]
        example_app) \<le> 1"
  using should_build_sticky [of "example_app\<lparr>should_build := NO\<rparr>" example_externals
      "\<lparr>manifest_rootpath = None, check_app_dependencies = False,
        modified_components = None, modified_files = None\<rparr>"
      "[]"]
    should_build_sticky [of example_app example_externals
      "\<lparr>manifest_rootpath = None, check_app_dependencies = False,
        modified_components = None, modified_files = None\<rparr>"
      "[\<lparr>manifest_rootpath = None, check_app_dependencies = False,
          modified_components = None, modified_files = None\<rparr>,
         \<lparr>manifest_rootpath = None, check_app_dependencies = True,
          modified_components = Some (Lst []), modified_files = None\<rparr>]"]
  by (simp add: example_app_def check_should_build_def)

lemma set_proper_prefixes: "set (butlast (prefixes xs)) = {ys. strict_prefix ys xs}"
proof (cases xs rule: rev_cases)
  case Nil
  then show ?thesis by simp
next
  case (snoc zs z)
  have "strict_prefix ys (zs @ [z]) \<longleftrightarrow> prefix ys zs" for ys
    by (auto simp: strict_prefix_def prefix_snoc)
  with snoc show ?thesis by (simp add: set_prefixes_eq)
qed

lemma in_parents_iff:
  "a \<in> set (parents p) \<longleftrightarrow> anchor a = anchor p \<and> strict_prefix (segments a) (segments p)"
  by (cases a) (auto simp: parents_def set_proper_prefixes)

lemma is_modified_loop_iff:
  "is_modified_loop X a fs \<longleftrightarrow>
     (\<exists>f \<in> set fs. \<not> endswith (last (parts (to_absolute_path X f))) ''.md''
        \<and> a \<in> set (parents (to_absolute_path X f)))"
  by (induction fs) (auto simp: Let_def)

lemma is_modified_list:
  "is_modified X self (Some (Lst fs)) \<longleftrightarrow> (\<exists>f \<in> set fs. inside_app X self f)"
proof (cases fs)
  case Nil
  then show ?thesis by (simp add: is_modified_def)
next
  case (Cons g gs)
  then have "is_modified X self (Some (Lst fs))
     = is_modified_loop X (to_absolute_path X (app_dir self)) fs"
    by (simp add: is_modified_def Let_def del: is_modified_loop.simps)
  then show ?thesis
    by (simp add: is_modified_loop_iff in_parents_iff inside_app_def)
qed

lemma is_modified_none: "\<not> is_modified X self None"
  by (simp add: is_modified_def)

text \<open>
  The decision of \<open>check_should_build\<close> on an App that is still undecided, when the modified
  files are given as a list or not at all.  Without the dependency check the decision is
  \<open>YES\<close>.  With it, a modified file inside the app directory whose name does not end in
  \<open>.md\<close> gives \<open>YES\<close>; otherwise the decision is \<open>YES\<close> when the component signal or the
  file signal is \<open>YES\<close>, \<open>NO\<close> when the component signal is \<open>NO\<close> and the file signal is not
  \<open>YES\<close>, and stays \<open>UNKNOWN\<close> in every other case.  Each signal is \<open>UNKNOWN\<close> when its
  list of modifications is not given, \<open>YES\<close> on an intersection or a match, \<open>NO\<close> when there
  is none and the App declares a dependency, and \<open>UNKNOWN\<close> when it declares none; so an App
  without declared component dependencies never gets \<open>NO\<close>.
\<close>

theorem decision_matrix:
  assumes "should_build self = UNKNOWN"
    and "modified_files c = None \<or> modified_files c = Some (Lst fs)"
  shows "(\<not> check_app_dependencies c \<longrightarrow> should_build (check_should_build X c self) = YES)
     \<and> (check_app_dependencies c \<and> modified_files c = Some (Lst fs)
          \<and> (\<exists>f \<in> set fs. inside_app X self f) \<longrightarrow>
          should_build (check_should_build X c self) = YES)
     \<and> (check_app_dependencies c
          \<and> (modified_files c = Some (Lst fs) \<longrightarrow> (\<forall>f \<in> set fs. \<not> inside_app X self f)) \<longrightarrow>
          should_build (check_should_build X c self) =
            (if components_signal X self c = YES \<or> files_signal X self c = YES then YES
             else if components_signal X self c = NO then NO
             else UNKNOWN))
     \<and> (check_app_dependencies c \<longrightarrow>
          components_signal X self c =
            (case to_list (modified_components c) of
               None \<Rightarrow> UNKNOWN
             | Some mc \<Rightarrow>
                 if set (depends_components X self) \<inter> set mc \<noteq> {} then YES
                 else if depends_components X self \<noteq> [] then NO
                 else UNKNOWN)
          \<and> files_signal X self c =
            (case to_list (modified_files c) of
               None \<Rightarrow> UNKNOWN
             | Some mf \<Rightarrow>
                 if files_matches_patterns X mf (depends_filepatterns X self) (manifest_rootpath c)
                 then YES
                 else if depends_filepatterns X self \<noteq> [] then NO
                 else UNKNOWN))
     \<and> (depends_components X self = [] \<longrightarrow> components_signal X self c \<noteq> NO)
     \<and> (depends_components X self = [] \<longrightarrow> should_build (check_should_build X c self) \<noteq> NO)"
proof (intro conjI impI)
  show "should_build (check_should_build X c self) = YES" if "\<not> check_app_dependencies c"
    using assms(1) that by (simp add: check_should_build_def)
  show "should_build (check_should_build X c self) = YES"
    if "check_app_dependencies c \<and> modified_files c = Some (Lst fs)
          \<and> (\<exists>f \<in> set fs. inside_app X self f)"
    using assms(1) that by (simp add: check_should_build_def is_modified_list)
  have nm: "\<not> is_modified X self (modified_files c)"
    if "modified_files c = Some (Lst fs) \<longrightarrow> (\<forall>f \<in> set fs. \<not> inside_app X self f)"
    using assms(2) that by (auto simp: is_modified_list is_modified_none)
  show "should_build (check_should_build X c self) =
            (if components_signal X self c = YES \<or> files_signal X self c = YES then YES
             else if components_signal X self c = NO then NO
             else UNKNOWN)"
    if "check_app_dependencies c
          \<and> (modified_files c = Some (Lst fs) \<longrightarrow> (\<forall>f \<in> set fs. \<not> inside_app X self f))"
    using assms(1) that nm by (simp add: check_should_build_def Let_def)
  show "components_signal X self c =
            (case to_list (modified_components c) of
               None \<Rightarrow> UNKNOWN
             | Some mc \<Rightarrow>
                 if set (depends_components X self) \<inter> set mc \<noteq> {} then YES
                 else if depends_components X self \<noteq> [] then NO
                 else UNKNOWN)" if "check_app_dependencies c"
    using that by (simp add: components_signal_def split: option.splits)
  show "files_signal X self c =
            (case to_list (modified_files c) of
               None \<Rightarrow> UNKNOWN
             | Some mf \<Rightarrow>
                 if files_matches_patterns X mf (depends_filepatterns X self) (manifest_rootpath c)
                 then YES
                 else if depends_filepatterns X self \<noteq> [] then NO
                 else UNKNOWN)" if "check_app_dependencies c"
    using that by (simp add: files_signal_def split: option.splits)
  show n: "components_signal X self c \<noteq> NO" if "depends_components X self = []"
    using that by (simp add: components_signal_def split: option.splits)
  show "should_build (check_should_build X c self) \<noteq> NO" if "depends_components X self = []"
    using assms(1) n[OF that] by (simp add: check_should_build_def Let_def)
qed

lemmas decision_eval = check_should_build_def example_app_def example_externals_def is_modified_def
  posix_resolve_def parts_def parents_def endswith_def startswith_def
  components_signal_def files_signal_def depends_components_def depends_filepatterns_def
  inside_app_def

theorem decision_matrix_witness:
  "should_build example_app = UNKNOWN
   \<and> inside_app example_externals example_app ''/repo/app/main/main.c''
   \<and> \<not> inside_app example_externals example_app ''/repo/app/README.md''
   \<and> \<not> inside_app example_externals example_app ''/repo/components/x/x.c''
   \<and> should_build (check_should_build example_externals
        \<lparr>manifest_rootpath = None, check_app_dependencies = True, modified_components = None,
         modified_files = Some (Lst [''/repo/app/README.md'', ''/repo/app/main/main.c''])\<rparr>
        example_app) = YES
   \<and> should_build (check_should_build example_externals
        \<lparr>manifest_rootpath = None, check_app_dependencies = False, modified_components = None,
         modified_files = None\<rparr> example_app) = YES
   \<and> should_build (check_should_build (example_externals\<lparr>MANIFEST := Some example_manifest\<rparr>)
        \<lparr>manifest_rootpath = None, check_app_dependencies = True,
         modified_components = Some (Lst [''esp_http'']),
         modified_files = Some (Lst [''/repo/app/README.md''])\<rparr> example_app) = NO
   \<and> should_build (check_should_build example_externals
        \<lparr>manifest_rootpath = None, check_app_dependencies = True,
         modified_components = Some (Lst [''esp_http'']),
         modified_files = Some (Lst [''/repo/components/x/x.c''])\<rparr> example_app) = UNKNOWN"
  using decision_matrix[of example_app
      "\<lparr>manifest_rootpath = None, check_app_dependencies = True, modified_components = None,
         modified_files = Some (Lst [''/repo/app/README.md'', ''/repo/app/main/main.c''])\<rparr>"
      "[''/repo/app/README.md'', ''/repo/app/main/main.c'']" example_externals]
    decision_matrix[of example_app
      "\<lparr>manifest_rootpath = None, check_app_dependencies = False, modified_components = None,
         modified_files = None\<rparr>" "[]" example_externals]
    decision_matrix[of example_app
      "\<lparr>manifest_rootpath = None, check_app_dependencies = True,
         modified_components = Some (Lst [''esp_http'']),
         modified_files = Some (Lst [''/repo/app/README.md''])\<rparr>"
      "[''/repo/app/README.md'']" "example_externals\<lparr>MANIFEST := Some example_manifest\<rparr>"]
    decision_matrix[of example_app
      "\<lparr>manifest_rootpath = None, check_app_dependencies = True,
         modified_components = Some (Lst [''esp_http'']),
         modified_files = Some (Lst [''/repo/components/x/x.c''])\<rparr>"
      "[''/repo/components/x/x.c'']" example_externals]
  by (simp add: decision_eval example_manifest_def)

text \<open>
  Claim C1, on modified files given as a single string.  The signature of
  \<open>check_should_build\<close> admits a single string for \<open>modified_files\<close>, and the method turns it
  into a one-element list with \<open>to_list\<close>, but only after it has called \<open>is_modified\<close>, whose
  loop then runs over the characters of the string.  For the App in \<open>/repo/app\<close> and the
  working directory \<open>/repo\<close>, the modified file \<open>/repo/app/main.c\<close> lies inside the app
  directory and is no \<open>.md\<close> file, so by the claim the decision is \<open>YES\<close>, as it is when the
  same file is given in a list; given as a string, none of its characters resolves to a path
  inside the app directory and the decision stays \<open>UNKNOWN\<close>.
\<close>

theorem decision_single_string_files:
  "should_build (check_should_build example_externals
      \<lparr>manifest_rootpath = None, check_app_dependencies = True,
       modified_components = None, modified_files = Some (Str ''/repo/app/main.c'')\<rparr>
      example_app) = UNKNOWN
   \<and> should_build (check_should_build example_externals
      \<lparr>manifest_rootpath = None, check_app_dependencies = True,
       modified_components = None, modified_files = Some (Lst [''/repo/app/main.c''])\<rparr>
      example_app) = YES
   \<and> to_list (Some (Str ''/repo/app/main.c'')) = Some [''/repo/app/main.c'']
   \<and> \<not> is_modified example_externals example_app (Some (Str ''/repo/app/main.c''))
   \<and> is_modified example_externals example_app (Some (Lst [''/repo/app/main.c'']))
   \<and> iter_items (Some (Str ''/repo/app/main.c''))
       = [''/'', ''r'', ''e'', ''p'', ''o'', ''/'', ''a'', ''p'', ''p'', ''/'', ''m'', ''a'', ''i'',
          ''n'', ''.'', ''c'']"
  by (simp add: decision_eval)

section \<open>Properties of the build lifecycle\<close>

lemma classify_logs_only: "a \<in> set (fst (classify L lines)) \<Longrightarrow> \<exists>lv m. a = Log lv m"
  by (induction lines) (auto split: prod.splits bool.splits)

lemma build_temp_opened:
  assumes "\<not> dry_run self" "build_log_path X self = None"
  shows "build X L W self =
     (case build_outcome W of
        Raised (OtherError e) \<Rightarrow>
          (prepare X W self @ [NamedTemporaryFile (temp_name W), RunBuild, CloseLogfile (temp_name W)],
           Raised (OtherError e))
      | Raised (BuildError e) \<Rightarrow>
          (prepare X W self @ [NamedTemporaryFile (temp_name W), RunBuild, CloseLogfile (temp_name W)]
             @ fst (after_build X L W self (temp_name W) False (Some e) False),
           snd (after_build X L W self (temp_name W) False (Some e) False))
      | Returned b \<Rightarrow>
          (prepare X W self @ [NamedTemporaryFile (temp_name W), RunBuild, CloseLogfile (temp_name W)]
             @ fst (after_build X L W self (temp_name W) False None b),
           snd (after_build X L W self (temp_name W) False None b)))"
  using assms by (simp add: build_def Let_def split: build_result.splits exn.splits)

lemma after_build_error:
  "after_build X L W self t False (Some e) False =
     (fst (classify L (log_lines_read W)) @ diagnostics L t (log_lines_read W) @ cleanup X self,
      Raised (BuildError e))"
  by (simp add: after_build_def Let_def log_lines_read_def diagnostics_def cleanup_def
      split: option.splits list.splits)

lemma after_build_returned:
  "\<exists>rest. fst (after_build X L W self t False None b) =
     fst (classify L (log_lines_read W))
       @ [Unlink t, Log DEBUG (''==> Removed temporary build log file '' @ t)] @ rest"
  by (simp add: after_build_def Let_def log_lines_read_def split: option.splits list.splits)

lemma after_build_policy:
  assumes "check_warnings self" "snd (classify L (log_lines_read W))" "size_tool_error W = None"
  shows "snd (after_build X L W self t False None b)
     = Raised (BuildError ''Build succeeded with warnings'')"
  using assms
  by (simp add: after_build_def Let_def log_lines_read_def write_size_json_def
      split: option.splits list.splits)

lemma no_unlink_after_error:
  "Unlink t \<notin> set (fst (classify L lines) @ diagnostics L t lines @ cleanup X self)"
  using classify_logs_only[of "Unlink t" L lines]
  by (auto simp: diagnostics_def cleanup_def)

lemma ex_lines: "log_lines_read example_world =
   [''compiling'', ''CMakeError: error: undefined reference'', ''main.c:3: Warning: unused variable'']"
  by (simp add: log_lines_read_def example_world_def rstrip_def is_space_def)

lemma ex_classify: "classify example_log_config
     [''compiling'', ''CMakeError: error: undefined reference'', ''main.c:3: Warning: unused variable'']
   = ([Log INFO ''[Ignored warning] CMakeError: error: undefined reference'',
       Log WARNING ''main.c:3: Warning: unused variable''], True)"
  by (simp add: is_error_or_warning_def log_error_warning_search_def lower_char_def
      example_log_config_def contains_def startswith_def Let_def)

lemma ex_paths:
  "\<not> dry_run example_app" "build_log_path example_externals example_app = None"
  "preserve example_app" "size_json_path example_externals example_app = None"
  by (simp_all add: example_app_def build_log_path_def size_json_path_def)

lemma ex_build_path:
  "work_dir example_externals example_app = ''/repo/app''"
  "build_path example_externals example_app = ''/repo/app/build''"
  "app_dir example_app = ''/repo/app''"
  by (simp_all add: work_dir_def build_path_def build_dir_def isabs_def expand_eval)

lemma ex_prepare: "prepare example_externals example_world example_app =
   [Log DEBUG ''=> Preparing...'',
    Log DEBUG ''==> Build directory /repo/app/build exists, removing'',
    Rmtree ''/repo/app/build'', Makedirs ''/repo/app/build'']"
  by (simp add: prepare_def ex_paths ex_build_path) (simp add: example_world_def)

text \<open>
  Claim C9, as amended.  Let \<open>build\<close> run (no dry run) with no build log path, so that the
  log goes to a temporary file.  When \<open>_build\<close> returns, the log is classified and then the
  temporary file is unlinked.  When \<open>_build\<close> raises a \<open>BuildError\<close>, the method classifies
  the log, then logs the header and the last \<open>LOG_DEBUG_LINES\<close> lines of the log (25 by
  default) as errors, then removes the build directory if it is not preserved, and only then
  raises the error again; none of these actions unlinks the temporary file.  When \<open>_build\<close>
  raises an exception of another class, the method closes the log file and the exception
  leaves at once: the temporary file stays as well, and no line of it is classified or
  shown.
\<close>

theorem temporary_log_fate:
  assumes "\<not> dry_run self" and "build_log_path X self = None"
  shows "(build_outcome W = Returned b \<longrightarrow>
            (\<exists>rest. fst (build X L W self) =
               prepare X W self
                 @ [NamedTemporaryFile (temp_name W), RunBuild, CloseLogfile (temp_name W)]
                 @ fst (classify L (log_lines_read W))
                 @ [Unlink (temp_name W),
                    Log DEBUG (''==> Removed temporary build log file '' @ temp_name W)]
                 @ rest))
       \<and> (build_outcome W = Raised (BuildError e) \<longrightarrow>
            build X L W self =
              (prepare X W self
                 @ [NamedTemporaryFile (temp_name W), RunBuild, CloseLogfile (temp_name W)]
                 @ fst (classify L (log_lines_read W))
                 @ diagnostics L (temp_name W) (log_lines_read W)
                 @ cleanup X self,
               Raised (BuildError e))
            \<and> Unlink (temp_name W)
                 \<notin> set (fst (classify L (log_lines_read W))
                          @ diagnostics L (temp_name W) (log_lines_read W) @ cleanup X self))
       \<and> (build_outcome W = Raised (OtherError e) \<longrightarrow>
            build X L W self =
              (prepare X W self
                 @ [NamedTemporaryFile (temp_name W), RunBuild, CloseLogfile (temp_name W)],
               Raised (OtherError e)))
       \<and> (LOG_DEBUG_LINES L = 25 \<longrightarrow>
            diagnostics L (temp_name W) (log_lines_read W) =
              Log ERROR (''Last 25 lines from the build log '' @ [CHR 0x22] @ temp_name W
                           @ [CHR 0x22] @ '':'')
                # map (Log ERROR) (drop (length (log_lines_read W) - 25) (log_lines_read W)))"
proof (intro conjI impI)
  note o = build_temp_opened[OF assms, of L W]
  show "\<exists>rest. fst (build X L W self) =
               prepare X W self
                 @ [NamedTemporaryFile (temp_name W), RunBuild, CloseLogfile (temp_name W)]
                 @ fst (classify L (log_lines_read W))
                 @ [Unlink (temp_name W),
                    Log DEBUG (''==> Removed temporary build log file '' @ temp_name W)]
                 @ rest"
    if "build_outcome W = Returned b"
    using o that after_build_returned[of X L W self "temp_name W" b] by auto
  show "build X L W self =
              (prepare X W self
                 @ [NamedTemporaryFile (temp_name W), RunBuild, CloseLogfile (temp_name W)]
                 @ fst (classify L (log_lines_read W))
                 @ diagnostics L (temp_name W) (log_lines_read W)
                 @ cleanup X self,
               Raised (BuildError e))"
    if "build_outcome W = Raised (BuildError e)"
    using o that by (simp add: after_build_error)
  show "Unlink (temp_name W)
                 \<notin> set (fst (classify L (log_lines_read W))
                          @ diagnostics L (temp_name W) (log_lines_read W) @ cleanup X self)"
    by (rule no_unlink_after_error)
  show "build X L W self =
              (prepare X W self
                 @ [NamedTemporaryFile (temp_name W), RunBuild, CloseLogfile (temp_name W)],
               Raised (OtherError e))"
    if "build_outcome W = Raised (OtherError e)"
    using o that by simp
  show "diagnostics L (temp_name W) (log_lines_read W) =
              Log ERROR (''Last 25 lines from the build log '' @ [CHR 0x22] @ temp_name W
                           @ [CHR 0x22] @ '':'')
                # map (Log ERROR) (drop (length (log_lines_read W) - 25) (log_lines_read W))"
    if "LOG_DEBUG_LINES L = 25"
    using that by (simp add: diagnostics_def last_lines_def str_int_def str_nat.simps digit_char_def)
qed

text \<open>
  The theorem on the example: a failed build leaves \<open>/tmp/tmpab12\<close> and ends with the error
  after the three lines of the log have been shown; a build that returns unlinks the file
  after the classification.
\<close>

theorem temporary_log_fate_witness:
  "\<not> dry_run example_app \<and> build_log_path example_externals example_app = None
   \<and> build_outcome example_world = Raised (BuildError ''make failed'')
   \<and> LOG_DEBUG_LINES example_log_config = 25
   \<and> build example_externals example_log_config example_world example_app =
       ([Log DEBUG ''=> Preparing...'',
         Log DEBUG ''==> Build directory /repo/app/build exists, removing'',
         Rmtree ''/repo/app/build'', Makedirs ''/repo/app/build'',
         NamedTemporaryFile ''/tmp/tmpab12'', RunBuild, CloseLogfile ''/tmp/tmpab12'',
         Log INFO ''[Ignored warning] CMakeError: error: undefined reference'',
         Log WARNING ''main.c:3: Warning: unused variable'',
         Log ERROR (''Last 25 lines from the build log '' @ [CHR 0x22] @ ''/tmp/tmpab12''
                      @ [CHR 0x22] @ '':''),
         Log ERROR ''compiling'',
         Log ERROR ''CMakeError: error: undefined reference'',
         Log ERROR ''main.c:3: Warning: unused variable''],
        Raised (BuildError ''make failed''))
   \<and> (\<exists>rest. fst (build example_externals example_log_config
                     (example_world\<lparr>build_outcome := Returned True\<rparr>) example_app) =
         [Log DEBUG ''=> Preparing...'',
          Log DEBUG ''==> Build directory /repo/app/build exists, removing'',
          Rmtree ''/repo/app/build'', Makedirs ''/repo/app/build'',
          NamedTemporaryFile ''/tmp/tmpab12'', RunBuild, CloseLogfile ''/tmp/tmpab12'',
          Log INFO ''[Ignored warning] CMakeError: error: undefined reference'',
          Log WARNING ''main.c:3: Warning: unused variable'',
          Unlink ''/tmp/tmpab12'',
          Log DEBUG ''==> Removed temporary build log file /tmp/tmpab12''] @ rest)"
proof -
  have w2: "log_lines_read (example_world\<lparr>build_outcome := Returned True\<rparr>)
      = log_lines_read example_world"
    "prepare example_externals (example_world\<lparr>build_outcome := Returned True\<rparr>) example_app
      = prepare example_externals example_world example_app"
    by (simp_all add: log_lines_read_def prepare_def)
  have d: "diagnostics example_log_config ''/tmp/tmpab12''
       [''compiling'', ''CMakeError: error: undefined reference'',
        ''main.c:3: Warning: unused variable'']
     = [Log ERROR (''Last 25 lines from the build log '' @ [CHR 0x22] @ ''/tmp/tmpab12''
                      @ [CHR 0x22] @ '':''),
        Log ERROR ''compiling'',
        Log ERROR ''CMakeError: error: undefined reference'',
        Log ERROR ''main.c:3: Warning: unused variable'']"
    by (simp add: diagnostics_def last_lines_def example_log_config_def str_int_def
        str_nat.simps digit_char_def)
  have c: "cleanup example_externals example_app = []"
    by (simp add: cleanup_def ex_paths)
  have t: "temp_name example_world = ''/tmp/tmpab12''"
    "build_outcome example_world = Raised (BuildError ''make failed'')"
    "LOG_DEBUG_LINES example_log_config = 25"
    by (simp_all add: example_world_def example_log_config_def)
  show ?thesis
    using temporary_log_fate[OF ex_paths(1,2), of example_world True example_log_config
        "''make failed''"]
      temporary_log_fate[OF ex_paths(1,2), of "example_world\<lparr>build_outcome := Returned True\<rparr>"
        True example_log_config "''make failed''"]
    by (simp del: classify.simps add: ex_paths ex_prepare ex_lines ex_classify w2 d c t)
qed

text \<open>
  Claim C9 as it is worded fails when \<open>_build\<close> ends with an exception that is not a
  \<open>BuildError\<close> (the \<open>KeyError\<close> of a project description without \<open>build_components\<close>,
  an interrupt): no build log path is set, no build error was raised, and the temporary
  file is not unlinked.
\<close>

theorem temporary_log_left_counterexample:
  "build example_externals example_log_config
     (example_world\<lparr>build_outcome := Raised (OtherError ''KeyError'')\<rparr>) example_app =
     ([Log DEBUG ''=> Preparing...'',
       Log DEBUG ''==> Build directory /repo/app/build exists, removing'',
       Rmtree ''/repo/app/build'', Makedirs ''/repo/app/build'',
       NamedTemporaryFile ''/tmp/tmpab12'', RunBuild, CloseLogfile ''/tmp/tmpab12''],
      Raised (OtherError ''KeyError''))
   \<and> raw_build_log_path example_app = None"
proof -
  have p: "prepare example_externals (example_world\<lparr>build_outcome := Raised (OtherError ''KeyError'')\<rparr>)
       example_app = prepare example_externals example_world example_app"
    by (simp add: prepare_def)
  show ?thesis
    by (simp add: build_def ex_paths p ex_prepare Let_def)
      (simp add: example_world_def example_app_def)
qed

text \<open>
  Claim C10.  Let \<open>build\<close> run with no build log path and \<open>_build\<close> return.  The temporary
  log file is unlinked right after the classification of the log, whatever \<open>check_warnings\<close>
  is and whether a warning was found.  With \<open>check_warnings\<close> set and a warning that is not
  ignored (and a size tool that does not fail) the method ends with the error
  \<open>Build succeeded with warnings\<close>, and whenever it ends with this error the file has been
  unlinked before.  When \<open>_build\<close> raises, no action after the run unlinks the file.
\<close>

theorem policy_error_after_log_removed:
  assumes "\<not> dry_run self" and "build_log_path X self = None"
    and "build_outcome W = Returned b"
  shows "(\<exists>rest. fst (build X L W self) =
            prepare X W self
              @ [NamedTemporaryFile (temp_name W), RunBuild, CloseLogfile (temp_name W)]
              @ fst (classify L (log_lines_read W))
              @ [Unlink (temp_name W),
                 Log DEBUG (''==> Removed temporary build log file '' @ temp_name W)]
              @ rest)
       \<and> (check_warnings self \<and> snd (classify L (log_lines_read W))
            \<and> size_tool_error W = None \<longrightarrow>
            snd (build X L W self) = Raised (BuildError ''Build succeeded with warnings''))
       \<and> (snd (build X L W self) = Raised (BuildError ''Build succeeded with warnings'') \<longrightarrow>
            Unlink (temp_name W) \<in> set (fst (build X L W self)))
       \<and> (build_outcome W' = Raised x \<and> build_log_path X self = None \<longrightarrow>
            (\<exists>rest. fst (build X L W' self) =
               prepare X W' self
                 @ [NamedTemporaryFile (temp_name W'), RunBuild, CloseLogfile (temp_name W')]
                 @ rest
               \<and> Unlink (temp_name W') \<notin> set rest))"
proof (intro conjI impI)
  note o = build_temp_opened[OF assms(1,2), of L W]
  show r: "\<exists>rest. fst (build X L W self) =
            prepare X W self
              @ [NamedTemporaryFile (temp_name W), RunBuild, CloseLogfile (temp_name W)]
              @ fst (classify L (log_lines_read W))
              @ [Unlink (temp_name W),
                 Log DEBUG (''==> Removed temporary build log file '' @ temp_name W)]
              @ rest"
    using o assms(3) after_build_returned[of X L W self "temp_name W" b] by auto
  show "snd (build X L W self) = Raised (BuildError ''Build succeeded with warnings'')"
    if "check_warnings self \<and> snd (classify L (log_lines_read W)) \<and> size_tool_error W = None"
    using o assms(3) that after_build_policy[of self L W X "temp_name W" b] by simp
  show "Unlink (temp_name W) \<in> set (fst (build X L W self))"
    using r by auto
  show "\<exists>rest. fst (build X L W' self) =
               prepare X W' self
                 @ [NamedTemporaryFile (temp_name W'), RunBuild, CloseLogfile (temp_name W')]
                 @ rest
               \<and> Unlink (temp_name W') \<notin> set rest"
    if h: "build_outcome W' = Raised x \<and> build_log_path X self = None"
  proof (cases x)
    case (BuildError e)
    have "fst (build X L W' self) =
               prepare X W' self
                 @ [NamedTemporaryFile (temp_name W'), RunBuild, CloseLogfile (temp_name W')]
                 @ (fst (classify L (log_lines_read W'))
                      @ diagnostics L (temp_name W') (log_lines_read W') @ cleanup X self)"
      using build_temp_opened[OF assms(1,2), of L W'] h BuildError
      by (simp add: after_build_error)
    then show ?thesis using no_unlink_after_error[of "temp_name W'" L "log_lines_read W'" X self]
      by blast
  next
    case (OtherError e)
    have "fst (build X L W' self) =
               prepare X W' self
                 @ [NamedTemporaryFile (temp_name W'), RunBuild, CloseLogfile (temp_name W')]
                 @ []"
      using build_temp_opened[OF assms(1,2), of L W'] h OtherError by simp
    then show ?thesis by (intro exI[of _ "[]"]) simp
  qed
qed

text \<open>
  The theorem on the example, with \<open>check_warnings\<close> set: the build that returns ends with
  the policy error after \<open>/tmp/tmpab12\<close> has been unlinked; the failed build keeps the file.
\<close>

theorem policy_error_after_log_removed_witness:
  "\<not> dry_run (example_app\<lparr>check_warnings := True\<rparr>)
   \<and> build_log_path example_externals (example_app\<lparr>check_warnings := True\<rparr>) = None
   \<and> check_warnings (example_app\<lparr>check_warnings := True\<rparr>)
   \<and> snd (classify example_log_config
             (log_lines_read (example_world\<lparr>build_outcome := Returned True\<rparr>)))
   \<and> snd (build example_externals example_log_config
             (example_world\<lparr>build_outcome := Returned True\<rparr>)
             (example_app\<lparr>check_warnings := True\<rparr>))
       = Raised (BuildError ''Build succeeded with warnings'')
   \<and> (\<exists>rest. fst (build example_externals example_log_config
                     (example_world\<lparr>build_outcome := Returned True\<rparr>)
                     (example_app\<lparr>check_warnings := True\<rparr>)) =
         [Log DEBUG ''=> Preparing...'',
          Log DEBUG ''==> Build directory /repo/app/build exists, removing'',
          Rmtree ''/repo/app/build'', Makedirs ''/repo/app/build'',
          NamedTemporaryFile ''/tmp/tmpab12'', RunBuild, CloseLogfile ''/tmp/tmpab12'',
          Log INFO ''[Ignored warning] CMakeError: error: undefined reference'',
          Log WARNING ''main.c:3: Warning: unused variable'',
          Unlink ''/tmp/tmpab12'',
          Log DEBUG ''==> Removed temporary build log file /tmp/tmpab12''] @ rest)
   \<and> (\<exists>rest. fst (build example_externals example_log_config example_world
                     (example_app\<lparr>check_warnings := True\<rparr>)) =
         [Log DEBUG ''=> Preparing...'',
          Log DEBUG ''==> Build directory /repo/app/build exists, removing'',
          Rmtree ''/repo/app/build'', Makedirs ''/repo/app/build'',
          NamedTemporaryFile ''/tmp/tmpab12'', RunBuild, CloseLogfile ''/tmp/tmpab12''] @ rest
        \<and> Unlink ''/tmp/tmpab12'' \<notin> set rest)"
proof -
  let ?A = "example_app\<lparr>check_warnings := True\<rparr>"
  let ?W = "example_world\<lparr>build_outcome := Returned True\<rparr>"
  have a: "\<not> dry_run ?A" "build_log_path example_externals ?A = None" "check_warnings ?A"
    by (simp_all add: example_app_def build_log_path_def)
  have p: "prepare example_externals ?W ?A = prepare example_externals example_world example_app"
    "prepare example_externals example_world ?A = prepare example_externals example_world example_app"
    by (simp_all add: prepare_def build_log_path_def build_path_def build_dir_def work_dir_def
        expand_eval)
  have l: "log_lines_read ?W = log_lines_read example_world"
    by (simp add: log_lines_read_def)
  have t: "temp_name ?W = ''/tmp/tmpab12''" "temp_name example_world = ''/tmp/tmpab12''"
    "build_outcome ?W = Returned True" "size_tool_error ?W = None"
    "build_outcome example_world = Raised (BuildError ''make failed'')"
    by (simp_all add: example_world_def)
  show ?thesis
    using policy_error_after_log_removed[OF a(1,2) t(3), of example_log_config example_world
        "BuildError ''make failed''"]
    by (simp del: classify.simps add: a p l t ex_prepare ex_lines ex_classify)
qed

end
